theory Spec2Isabelle
  imports Main "HOL-Library.Log_Nat" "HOL-Library.Sublist" "HOL-Library.List_Lexorder"
begin

section \<open>JavaScript values used by the builder\<close>

subsection \<open>Strings\<close>

text \<open>
  A JavaScript string is modelled as a \<^typ>\<open>string\<close>: the list of its code units, each
  below 256. \<open>split_dot\<close> is \<^verbatim>\<open>s.split('.')\<close>, \<open>endsWith\<close> is
  \<^verbatim>\<open>s.endsWith(t)\<close>, \<open>includes_str\<close> is \<^verbatim>\<open>s.includes(t)\<close> and
  \<open>slice1\<close> is \<^verbatim>\<open>s.slice(1)\<close>.
\<close>

fun split_dot :: "string \<Rightarrow> string list" where
  "split_dot [] = [[]]"
| "split_dot (c # cs) =
     (if c = CHR ''.'' then [] # split_dot cs
      else (case split_dot cs of [] \<Rightarrow> [[c]] | p # ps \<Rightarrow> (c # p) # ps))"

definition endsWith :: "string \<Rightarrow> string \<Rightarrow> bool" where
  "endsWith s t = (length t \<le> length s \<and> drop (length s - length t) s = t)"

fun includes_str :: "string \<Rightarrow> string \<Rightarrow> bool" where
  "includes_str [] t = (t = [])"
| "includes_str (c # cs) t = (take (length t) (c # cs) = t \<or> includes_str cs t)"

definition slice1 :: "string \<Rightarrow> string" where
  "slice1 s = drop 1 s"

subsection \<open>Numbers\<close>

text \<open>
  A JavaScript number is an IEEE 754 binary64 value. \<open>Fin q\<close> is the finite double whose
  exact value is the rational \<open>q\<close> (the two zeros are identified: they compare equal and
  both are falsy). \<open>to_double\<close> rounds an exact value to the nearest double, ties to
  even, overflowing to an infinity, as the conversion of a numeric string does.
\<close>

datatype jsnum = NaN | Fin rat | PosInf | NegInf

definition pow2 :: "int \<Rightarrow> rat" where
  "pow2 k = (if 0 \<le> k then 2 ^ nat k else 1 / 2 ^ nat (- k))"

definition pow10 :: "int \<Rightarrow> rat" where
  "pow10 k = (if 0 \<le> k then 10 ^ nat k else 1 / 10 ^ nat (- k))"

text \<open>\<open>binade a\<close> is the integer \<open>k\<close> with \<open>2^k \<le> a < 2^(k+1)\<close>, for \<open>a > 0\<close>.\<close>

definition binade :: "rat \<Rightarrow> int" where
  "binade a = (if 1 \<le> a then bitlen \<lfloor>a\<rfloor> - 1 else - bitlen (\<lceil>1 / a\<rceil> - 1))"

definition round_half_even :: "rat \<Rightarrow> int" where
  "round_half_even x =
     (let f = \<lfloor>x\<rfloor>; d = x - of_int f
      in if d < 1 / 2 then f else if 1 / 2 < d then f + 1
         else if even f then f else f + 1)"

definition to_double :: "rat \<Rightarrow> jsnum" where
  "to_double q =
     (if q = 0 then Fin 0
      else let a = \<bar>q\<bar>;
               k = max (binade a) (- 1022);
               u = pow2 (k - 52);
               r = of_int (round_half_even (a / u)) * u
           in if pow2 1024 \<le> r then (if 0 < q then PosInf else NegInf)
              else Fin (if 0 < q then r else - r))"

definition js_neg :: "jsnum \<Rightarrow> jsnum" where
  "js_neg x = (case x of NaN \<Rightarrow> NaN | Fin q \<Rightarrow> Fin (- q) | PosInf \<Rightarrow> NegInf | NegInf \<Rightarrow> PosInf)"

text \<open>The comparisons \<^verbatim>\<open>a > b\<close> and \<^verbatim>\<open>a < b\<close>: false as soon as one side is NaN.\<close>

fun js_lt :: "jsnum \<Rightarrow> jsnum \<Rightarrow> bool" where
  "js_lt NaN _ = False"
| "js_lt _ NaN = False"
| "js_lt (Fin a) (Fin b) = (a < b)"
| "js_lt (Fin a) PosInf = True"
| "js_lt (Fin a) NegInf = False"
| "js_lt PosInf _ = False"
| "js_lt NegInf (Fin b) = True"
| "js_lt NegInf PosInf = True"
| "js_lt NegInf NegInf = False"

definition js_gt :: "jsnum \<Rightarrow> jsnum \<Rightarrow> bool" where
  "js_gt a b = js_lt b a"

subsection \<open>The conversion \<^verbatim>\<open>Number(string)\<close>\<close>

text \<open>
  \<^verbatim>\<open>Number(s)\<close> trims white space and line terminators, reads the empty string as 0, a
  binary, octal or hexadecimal integer literal without sign, or a signed decimal literal
  (\<^verbatim>\<open>Infinity\<close>, or digits with an optional exponent part), and gives NaN for every
  other string. The strings converted here are pieces between dots, so the forms of a
  decimal literal that contain a dot do not occur.
\<close>

definition is_ws :: "char \<Rightarrow> bool" where
  "is_ws c = (c \<in> set [CHR 0x09, CHR 0x0A, CHR 0x0B, CHR 0x0C, CHR 0x0D, CHR 0x20, CHR 0xA0])"

definition trim_ws :: "string \<Rightarrow> string" where
  "trim_ws s = rev (dropWhile is_ws (rev (dropWhile is_ws s)))"

definition digit_value :: "char \<Rightarrow> int option" where
  "digit_value =
     map_of [(CHR ''0'', 0), (CHR ''1'', 1), (CHR ''2'', 2), (CHR ''3'', 3), (CHR ''4'', 4),
             (CHR ''5'', 5), (CHR ''6'', 6), (CHR ''7'', 7), (CHR ''8'', 8), (CHR ''9'', 9),
             (CHR ''a'', 10), (CHR ''b'', 11), (CHR ''c'', 12), (CHR ''d'', 13),
             (CHR ''e'', 14), (CHR ''f'', 15),
             (CHR ''A'', 10), (CHR ''B'', 11), (CHR ''C'', 12), (CHR ''D'', 13),
             (CHR ''E'', 14), (CHR ''F'', 15)]"

definition is_digit :: "int \<Rightarrow> char \<Rightarrow> bool" where
  "is_digit b c = (case digit_value c of None \<Rightarrow> False | Some d \<Rightarrow> d < b)"

definition all_digits :: "int \<Rightarrow> string \<Rightarrow> bool" where
  "all_digits b ds = (ds \<noteq> [] \<and> list_all (is_digit b) ds)"

definition radix_value :: "int \<Rightarrow> string \<Rightarrow> int" where
  "radix_value b ds = foldl (\<lambda>a c. a * b + (case digit_value c of None \<Rightarrow> 0 | Some d \<Rightarrow> d)) 0 ds"

definition nondecimal_literal :: "string \<Rightarrow> int option" where
  "nondecimal_literal t =
     (case t of
        z # x # ds \<Rightarrow>
          (let b = (if x \<in> set ''xX'' then 16 else if x \<in> set ''oO'' then 8
                    else if x \<in> set ''bB'' then 2 else 0)
           in if z = CHR ''0'' \<and> b \<noteq> 0 \<and> all_digits b ds then Some (radix_value b ds)
              else None)
      | _ \<Rightarrow> None)"

definition signed_integer :: "string \<Rightarrow> int option" where
  "signed_integer r =
     (case r of
        [] \<Rightarrow> None
      | s # r' \<Rightarrow>
          if s = CHR ''+'' then (if all_digits 10 r' then Some (radix_value 10 r') else None)
          else if s = CHR ''-'' then (if all_digits 10 r' then Some (- radix_value 10 r') else None)
          else if all_digits 10 r then Some (radix_value 10 r)
          else None)"

definition exponent_part :: "string \<Rightarrow> int option" where
  "exponent_part r =
     (case r of
        [] \<Rightarrow> Some 0
      | e # r' \<Rightarrow> if e \<in> set ''eE'' then signed_integer r' else None)"

definition unsigned_decimal :: "string \<Rightarrow> jsnum" where
  "unsigned_decimal t =
     (if t = ''Infinity'' then PosInf
      else let m = takeWhile (is_digit 10) t; r = dropWhile (is_digit 10) t
           in if m = [] then NaN
              else (case exponent_part r of
                      None \<Rightarrow> NaN
                    | Some e \<Rightarrow> to_double (of_int (radix_value 10 m) * pow10 e)))"

definition Number :: "string \<Rightarrow> jsnum" where
  "Number s =
     (let t = trim_ws s
      in case t of
           [] \<Rightarrow> Fin 0
         | c # u \<Rightarrow>
             (case nondecimal_literal t of
                Some n \<Rightarrow> to_double (of_int n)
              | None \<Rightarrow>
                  if c = CHR ''+'' then unsigned_decimal u
                  else if c = CHR ''-'' then js_neg (unsigned_decimal u)
                  else unsigned_decimal t))"

text \<open>
  \<^verbatim>\<open>parts[i] || 0\<close>: an index past the end reads \<^verbatim>\<open>undefined\<close> (here \<open>None\<close>);
  \<^verbatim>\<open>undefined\<close>, NaN and zero are falsy and give 0.
\<close>

definition nth_opt :: "'a list \<Rightarrow> nat \<Rightarrow> 'a option" where
  "nth_opt xs i = (if i < length xs then Some (xs ! i) else None)"

definition or_zero :: "jsnum option \<Rightarrow> jsnum" where
  "or_zero v = (case v of None \<Rightarrow> Fin 0 | Some x \<Rightarrow> if x = NaN \<or> x = Fin 0 then Fin 0 else x)"

section \<open>Version comparison\<close>

text \<open>
  \<^verbatim>\<open>
  isVersionGreaterOrEqual(current, required) {
    const currentParts = current.split('.').map(Number);
    const requiredParts = required.split('.').map(Number);
    for (let i = 0; i < Math.max(currentParts.length, requiredParts.length); i++) {
      const currentPart = currentParts[i] || 0;
      const requiredPart = requiredParts[i] || 0;
      if (currentPart > requiredPart) return true;
      if (currentPart < requiredPart) return false;
    }
    return true;
  }
  \<close>
\<close>

function version_loop :: "jsnum list \<Rightarrow> jsnum list \<Rightarrow> nat \<Rightarrow> bool" where
  "version_loop currentParts requiredParts i =
     (if i < max (length currentParts) (length requiredParts) then
        (let currentPart = or_zero (nth_opt currentParts i);
             requiredPart = or_zero (nth_opt requiredParts i)
         in if js_gt currentPart requiredPart then True
            else if js_lt currentPart requiredPart then False
            else version_loop currentParts requiredParts (Suc i))
      else True)"
  by pat_completeness auto
termination
  by (relation "measure (\<lambda>(c, r, i). max (length c) (length r) - i)") auto

declare version_loop.simps [simp del]

definition isVersionGreaterOrEqual :: "string \<Rightarrow> string \<Rightarrow> bool" where
  "isVersionGreaterOrEqual current required =
     version_loop (map Number (split_dot current)) (map Number (split_dot required)) 0"

text \<open>
  \<^verbatim>\<open>
  checkNodeVersion() {
    const currentVersion = process.version.slice(1);
    const requiredVersion = '19.9.0';
    if (!this.isVersionGreaterOrEqual(currentVersion, requiredVersion)) {
      throw new Error(`Node.js version ${requiredVersion} or higher is required. Current version: ${currentVersion}`);
    }
  }
  \<close>
  An exception is a value: \<open>Error m\<close> is \<^verbatim>\<open>new Error(m)\<close>, and a function that may throw
  returns \<open>Inl\<close> of the error or \<open>Inr\<close> of its result. \<^verbatim>\<open>process.version\<close> is a
  parameter.
\<close>

datatype js_error = Error (message: string)

definition checkNodeVersion :: "string \<Rightarrow> js_error + unit" where
  "checkNodeVersion process_version =
     (let currentVersion = slice1 process_version;
          requiredVersion = ''19.9.0''
      in if \<not> isVersionGreaterOrEqual currentVersion requiredVersion then
           Inl (Error (''Node.js version '' @ requiredVersion @
                       '' or higher is required. Current version: '' @ currentVersion))
         else Inr ())"

text \<open>
  What the specification says of the comparison, on the numeric components: the
  shorter list is filled with zeros and the lists are compared lexicographically.
  A decimal numeral is a non-empty run of decimal digits; with at most 15 of them its
  value is a double, so that \<open>Number\<close> reads it without rounding.
\<close>

definition decimal_numeral :: "string \<Rightarrow> bool" where
  "decimal_numeral c = (all_digits 10 c \<and> length c \<le> 15)"

definition pad_zero :: "nat \<Rightarrow> int list \<Rightarrow> int list" where
  "pad_zero n xs = xs @ replicate (n - length xs) 0"

definition spec_version_ge :: "int list \<Rightarrow> int list \<Rightarrow> bool" where
  "spec_version_ge cs rs =
     (let n = max (length cs) (length rs) in pad_zero n rs \<le> pad_zero n cs)"

section \<open>The builder's options and its pure helpers\<close>

text \<open>
  \<^verbatim>\<open>this.options\<close>, as the constructor leaves it. The asset map is kept as the list of
  its entries, so that \<^verbatim>\<open>Object.keys(assets).length\<close> is the length of the list;
  the field \<^verbatim>\<open>output\<close> is \<open>output_name\<close>.
\<close>

record build_options =
  main :: string
  output_name :: string
  disableExperimentalSEAWarning :: bool
  useSnapshot :: bool
  useCodeCache :: bool
  assets :: "(string \<times> string) list"
  platforms :: "string list"
  tempDir :: string

text \<open>
  The builder object \<^verbatim>\<open>this\<close>: its options and the build identifier the constructor
  drew from the clock and the random source.
\<close>

record builder =
  options :: build_options
  buildId :: string

text \<open>
  \<^verbatim>\<open>
  getExecutableName(platform) {
    const baseName = this.options.output;
    if (platform === 'win32') {
      return baseName.endsWith('.exe') ? baseName : `${baseName}.exe`;
    }
    return baseName;
  }
  \<close>
\<close>

definition getExecutableName :: "builder \<Rightarrow> string \<Rightarrow> string" where
  "getExecutableName this platform =
     (let baseName = output_name (options this)
      in if platform = ''win32'' then
           (if endsWith baseName ''.exe'' then baseName else baseName @ ''.exe'')
         else baseName)"

text \<open>
  \<^verbatim>\<open>
  getNodeDownloadUrl(version, platform) {
    const arch = 'x64';
    const baseUrl = 'https://nodejs.org/dist';
    if (platform === 'win32') {
      return `${baseUrl}/v${version}/node-v${version}-win-${arch}.zip`;
    } else if (platform === 'darwin') {
      return `${baseUrl}/v${version}/node-v${version}-darwin-${arch}.tar.gz`;
    } else if (platform === 'linux') {
      return `${baseUrl}/v${version}/node-v${version}-linux-${arch}.tar.gz`;
    } else {
      throw new Error(`Unsupported platform: ${platform}`);
    }
  }
  \<close>
\<close>

definition getNodeDownloadUrl :: "string \<Rightarrow> string \<Rightarrow> js_error + string" where
  "getNodeDownloadUrl version platform =
     (let arch = ''x64''; baseUrl = ''https://nodejs.org/dist''
      in if platform = ''win32'' then
           Inr (baseUrl @ ''/v'' @ version @ ''/node-v'' @ version @ ''-win-'' @ arch @ ''.zip'')
         else if platform = ''darwin'' then
           Inr (baseUrl @ ''/v'' @ version @ ''/node-v'' @ version @ ''-darwin-'' @ arch @ ''.tar.gz'')
         else if platform = ''linux'' then
           Inr (baseUrl @ ''/v'' @ version @ ''/node-v'' @ version @ ''-linux-'' @ arch @ ''.tar.gz'')
         else Inl (Error (''Unsupported platform: '' @ platform)))"

section \<open>The world outside the builder\<close>

text \<open>
  The file system is a map from paths to nodes: a directory or a regular file with its
  content, each with its permission bits. A path is the string the code passes to
  \<^verbatim>\<open>fs\<close>. The content of the configuration file is kept as the configuration object
  that \<^verbatim>\<open>JSON.stringify\<close> was given; every other content is a string of bytes.
\<close>

type_synonym path = string

record sea_config =
  config_main :: string
  config_output :: string
  config_disableExperimentalSEAWarning :: bool
  config_useSnapshot :: bool
  config_useCodeCache :: bool
  config_assets :: "(string \<times> string) list option"

datatype content = Json sea_config | Bytes string

datatype kind = Directory | Regular content

type_synonym filesystem = "path \<Rightarrow> (kind \<times> nat) option"

datatype fs_call =
    MkdirSync path
  | WriteFileSync path content
  | CopyFileSync path path
  | UnlinkSync path
  | RmSync path
  | ChmodSync path nat
  | RenameSync path path

text \<open>
  Every call that leaves the process is recorded in a trace, in order: \<^verbatim>\<open>execSync\<close>
  with its command and timeout, the request for the version index, the download of an
  archive to a file, the extraction of an archive, the calls of \<^verbatim>\<open>fs\<close> that change the
  disk, and the lines written to the console (with their level).
\<close>

datatype event =
    Exec string "nat option"
  | HttpGet string
  | Download string path
  | TarExtract path path string
  | Unzip path path
  | Fs fs_call
  | Console string string

record world =
  disk :: filesystem
  trace :: "event list"

text \<open>
  An entry of the version index: \<^verbatim>\<open>v.version\<close> when it is a string (\<open>None\<close> for any
  other value: the filter then throws a \<^verbatim>\<open>TypeError\<close>), and whether \<^verbatim>\<open>v.lts\<close> is
  \<^verbatim>\<open>false\<close>. The response body is an array of entries or something else.
\<close>

record version_entry =
  entry_version :: "string option"
  entry_lts_false :: bool

datatype index_data = NotArray | Entries "version_entry list"

datatype download_outcome =
    RequestFailed string
  | StreamFailed string "string option"
  | Completed string

text \<open>
  What the code cannot decide is a parameter: the host (\<^verbatim>\<open>process.platform\<close>,
  \<^verbatim>\<open>process.execPath\<close>, \<^verbatim>\<open>os.homedir()\<close>, the functions of \<^verbatim>\<open>path\<close>, the mode of a
  new file), whether a call of \<^verbatim>\<open>fs\<close> fails (\<open>fs_fault\<close> gives the message), what an
  external command, the network and the archive libraries do, and the \<^verbatim>\<open>semver\<close>
  library. Each may depend on the world reached so far. A failing call of \<^verbatim>\<open>fs\<close> is
  taken to leave the disk as it was.
\<close>

record env =
  process_platform :: string
  process_execPath :: string
  os_homedir :: string
  path_join :: "string list \<Rightarrow> string"
  path_resolve :: "string \<Rightarrow> string"
  path_below :: "path \<Rightarrow> path \<Rightarrow> bool"
  default_mode :: nat
  fs_fault :: "fs_call \<Rightarrow> world \<Rightarrow> string option"
  exec_outcome :: "string \<Rightarrow> nat option \<Rightarrow> world \<Rightarrow> (string + string) \<times> filesystem"
  http_index :: "world \<Rightarrow> string + index_data"
  http_download :: "string \<Rightarrow> world \<Rightarrow> download_outcome"
  tar_outcome :: "path \<Rightarrow> path \<Rightarrow> string \<Rightarrow> world \<Rightarrow> (string + unit) \<times> filesystem"
  unzip_outcome :: "path \<Rightarrow> path \<Rightarrow> world \<Rightarrow> (string + unit) \<times> filesystem"
  semver_gte :: "string \<Rightarrow> string \<Rightarrow> js_error + bool"
  semver_lte :: "string \<Rightarrow> string \<Rightarrow> js_error + bool"
  semver_major :: "string \<Rightarrow> js_error + int"

subsection \<open>Computations that may throw\<close>

text \<open>
  A method is a function from the world to its outcome (\<open>Inl\<close> of the error thrown or
  \<open>Inr\<close> of the value returned) and the world it leaves. \<open>try_catch\<close> and
  \<open>try_finally\<close> are the statements of the same name; an \<^verbatim>\<open>await\<close> is a sequencing.
\<close>

type_synonym 'a io = "world \<Rightarrow> (js_error + 'a) \<times> world"

definition io_return :: "'a \<Rightarrow> 'a io" where
  "io_return x = (\<lambda>w. (Inr x, w))"

definition io_throw :: "js_error \<Rightarrow> 'a io" where
  "io_throw e = (\<lambda>w. (Inl e, w))"

definition io_bind :: "'a io \<Rightarrow> ('a \<Rightarrow> 'b io) \<Rightarrow> 'b io" where
  "io_bind m f = (\<lambda>w. case m w of (Inl e, w') \<Rightarrow> (Inl e, w') | (Inr x, w') \<Rightarrow> f x w')"

definition io_get :: "(world \<Rightarrow> 'a) \<Rightarrow> 'a io" where
  "io_get f = (\<lambda>w. (Inr (f w), w))"

definition try_catch :: "'a io \<Rightarrow> (js_error \<Rightarrow> 'a io) \<Rightarrow> 'a io" where
  "try_catch m h = (\<lambda>w. case m w of (Inl e, w') \<Rightarrow> h e w' | (Inr x, w') \<Rightarrow> (Inr x, w'))"

definition try_finally :: "'a io \<Rightarrow> unit io \<Rightarrow> 'a io" where
  "try_finally m fin =
     (\<lambda>w. case m w of
            (r, w') \<Rightarrow> (case fin w' of (Inl e, w'') \<Rightarrow> (Inl e, w'') | (Inr u, w'') \<Rightarrow> (r, w'')))"

definition record_event :: "event \<Rightarrow> world \<Rightarrow> world" where
  "record_event ev w = w\<lparr>trace := trace w @ [ev]\<rparr>"

definition console :: "string \<Rightarrow> string \<Rightarrow> unit io" where
  "console level text = (\<lambda>w. (Inr (), record_event (Console level text) w))"

subsection \<open>The file system\<close>

text \<open>\<open>quote s\<close> is \<open>s\<close> between single quotes, \<open>dquote s\<close> between double quotes.\<close>

definition quote :: "string \<Rightarrow> string" where
  "quote s = [CHR 0x27] @ s @ [CHR 0x27]"

definition dquote :: "string \<Rightarrow> string" where
  "dquote s = [CHR 0x22] @ s @ [CHR 0x22]"

definition existsSync :: "path \<Rightarrow> world \<Rightarrow> bool" where
  "existsSync p w = (disk w p \<noteq> None)"

definition fs_effect :: "env \<Rightarrow> fs_call \<Rightarrow> filesystem \<Rightarrow> filesystem" where
  "fs_effect env call d =
     (case call of
        MkdirSync p \<Rightarrow> (case d p of None \<Rightarrow> d(p \<mapsto> (Directory, default_mode env)) | Some n \<Rightarrow> d)
      | WriteFileSync p c \<Rightarrow>
          d(p \<mapsto> (Regular c, case d p of None \<Rightarrow> default_mode env | Some (k, m) \<Rightarrow> m))
      | CopyFileSync s t \<Rightarrow> d(t := d s)
      | UnlinkSync p \<Rightarrow> d(p := None)
      | RmSync p \<Rightarrow> (\<lambda>q. if q = p \<or> path_below env p q then None else d q)
      | ChmodSync p m \<Rightarrow> (case d p of None \<Rightarrow> d | Some (k, m') \<Rightarrow> d(p \<mapsto> (k, m)))
      | RenameSync s t \<Rightarrow> (if s = t then d else (d(t := d s))(s := None)))"

text \<open>
  A call on a path that must exist and does not fails with \<^verbatim>\<open>ENOENT\<close>
  (\<^verbatim>\<open>rmSync\<close> is called with \<^verbatim>\<open>force\<close>, \<^verbatim>\<open>mkdirSync\<close> with \<^verbatim>\<open>recursive\<close>).
\<close>

definition fs_enoent :: "fs_call \<Rightarrow> filesystem \<Rightarrow> string option" where
  "fs_enoent call d =
     (case call of
        CopyFileSync s t \<Rightarrow>
          (if d s = None then Some (''copyfile '' @ quote s @ '' -> '' @ quote t) else None)
      | UnlinkSync p \<Rightarrow> (if d p = None then Some (''unlink '' @ quote p) else None)
      | ChmodSync p m \<Rightarrow> (if d p = None then Some (''chmod '' @ quote p) else None)
      | RenameSync s t \<Rightarrow>
          (if d s = None then Some (''rename '' @ quote s @ '' -> '' @ quote t) else None)
      | _ \<Rightarrow> None)"

definition fs :: "env \<Rightarrow> fs_call \<Rightarrow> unit io" where
  "fs env call =
     (\<lambda>w. case fs_enoent call (disk w) of
            Some what \<Rightarrow>
              (Inl (Error (''ENOENT: no such file or directory, '' @ what)),
               record_event (Fs call) w)
          | None \<Rightarrow>
              (case fs_fault env call w of
                 Some m \<Rightarrow> (Inl (Error m), record_event (Fs call) w)
               | None \<Rightarrow>
                   (Inr (), record_event (Fs call) (w\<lparr>disk := fs_effect env call (disk w)\<rparr>))))"

section \<open>The methods of the builder\<close>

definition execSync :: "env \<Rightarrow> string \<Rightarrow> nat option \<Rightarrow> string io" where
  "execSync env command timeout =
     (\<lambda>w. case exec_outcome env command timeout w of
            (Inl m, d) \<Rightarrow> (Inl (Error m), record_event (Exec command timeout) (w\<lparr>disk := d\<rparr>))
          | (Inr out, d) \<Rightarrow> (Inr out, record_event (Exec command timeout) (w\<lparr>disk := d\<rparr>)))"

text \<open>\<^verbatim>\<open>this.tempBuildDir = path.join(this.options.tempDir, this.buildId)\<close>\<close>

definition tempBuildDir :: "env \<Rightarrow> builder \<Rightarrow> path" where
  "tempBuildDir env this = path_join env [tempDir (options this), buildId this]"

text \<open>
  \<^verbatim>\<open>
  createSeaConfig(platform) {
    const config = {
      main: this.options.main,
      output: path.join(this.tempBuildDir, `sea-prep-${platform}.blob`),
      disableExperimentalSEAWarning: this.options.disableExperimentalSEAWarning,
      useSnapshot: this.options.useSnapshot,
      useCodeCache: this.options.useCodeCache
    };
    if (platform !== process.platform) {
      config.useSnapshot = false;
      config.useCodeCache = false;
    }
    if (Object.keys(this.options.assets).length > 0) {
      config.assets = this.options.assets;
    }
    const configPath = path.join(this.tempBuildDir, `sea-config-${platform}-${this.buildId}.json`);
    fs.writeFileSync(configPath, JSON.stringify(config, null, 2));
    return configPath;
  }
  \<close>
\<close>

definition createSeaConfig :: "env \<Rightarrow> builder \<Rightarrow> string \<Rightarrow> path io" where
  "createSeaConfig env this platform =
     (let config = \<lparr>config_main = main (options this),
                     config_output =
                       path_join env [tempBuildDir env this, ''sea-prep-'' @ platform @ ''.blob''],
                     config_disableExperimentalSEAWarning =
                       disableExperimentalSEAWarning (options this),
                     config_useSnapshot = useSnapshot (options this),
                     config_useCodeCache = useCodeCache (options this),
                     config_assets = None\<rparr>;
          config = (if platform \<noteq> process_platform env
                    then config\<lparr>config_useSnapshot := False, config_useCodeCache := False\<rparr>
                    else config);
          config = (if length (assets (options this)) > 0
                    then config\<lparr>config_assets := Some (assets (options this))\<rparr>
                    else config);
          configPath =
            path_join env [tempBuildDir env this,
                           ''sea-config-'' @ platform @ ''-'' @ buildId this @ ''.json'']
      in io_bind (fs env (WriteFileSync configPath (Json config))) (\<lambda>u. io_return configPath))"

text \<open>
  \<^verbatim>\<open>
  generateBlob(configPath) {
    try {
      const nodeExecutable = process.execPath;
      execSync(`"${nodeExecutable}" --experimental-sea-config ${configPath}`, {...});
    } catch (error) {
      throw new Error(`Failed to generate blob: ${error.message}`);
    }
  }
  \<close>
\<close>

definition generateBlob :: "env \<Rightarrow> path \<Rightarrow> unit io" where
  "generateBlob env configPath =
     try_catch
       (let nodeExecutable = process_execPath env
        in io_bind
             (execSync env (dquote nodeExecutable @ '' --experimental-sea-config '' @ configPath) None)
             (\<lambda>out. io_return ()))
       (\<lambda>error. io_throw (Error (''Failed to generate blob: '' @ message error)))"

text \<open>
  \<^verbatim>\<open>
  async verifyWindowsExecutable(executableName) {
    try {
      const result = execSync(`"${path.resolve(executableName)}" --help`, {
        encoding: 'utf8', timeout: 5000, stdio: 'pipe'
      });
      if (result.includes('Welcome to Node.js') || result.includes('Type ".help"')) {
        throw new Error('Windows executable is still in REPL mode - blob injection failed');
      }
    } catch (error) {
      if (error.message.includes('REPL mode')) {
        throw error;
      }
    }
  }
  \<close>
\<close>

definition verifyWindowsExecutable :: "env \<Rightarrow> string \<Rightarrow> unit io" where
  "verifyWindowsExecutable env executableName =
     try_catch
       (io_bind
          (execSync env (dquote (path_resolve env executableName) @ '' --help'') (Some 5000))
          (\<lambda>result.
             if includes_str result ''Welcome to Node.js''
                \<or> includes_str result (''Type '' @ dquote ''.help'')
             then io_throw (Error ''Windows executable is still in REPL mode - blob injection failed'')
             else io_return ()))
       (\<lambda>error. if includes_str (message error) ''REPL mode'' then io_throw error
                 else io_return ())"

text \<open>
  \<^verbatim>\<open>
  async injectBlob(platform, executableName, blobPath) {
    let command;
    const sentinelFuse = 'NODE_SEA_FUSE_fce680ab2cc467b6e072b8b5df1996b2';
    if (platform === 'darwin') {
      command = `npx postject "${executableName}" NODE_SEA_BLOB "${blobPath}" --sentinel-fuse ${sentinelFuse} --macho-segment-name NODE_SEA`;
    } else {
      command = `npx postject "${executableName}" NODE_SEA_BLOB "${blobPath}" --sentinel-fuse ${sentinelFuse}`;
    }
    try {
      execSync(command, { stdio: 'inherit' });
      if (platform === 'win32') {
        await this.verifyWindowsExecutable(executableName);
      }
    } catch (error) {
      throw new Error(`Failed to inject blob: ${error.message}`);
    }
  }
  \<close>
\<close>

definition injectBlob :: "env \<Rightarrow> string \<Rightarrow> string \<Rightarrow> path \<Rightarrow> unit io" where
  "injectBlob env platform executableName blobPath =
     (let sentinelFuse = ''NODE_SEA_FUSE_fce680ab2cc467b6e072b8b5df1996b2'';
          command =
            (if platform = ''darwin''
             then ''npx postject '' @ dquote executableName @ '' NODE_SEA_BLOB '' @ dquote blobPath
                  @ '' --sentinel-fuse '' @ sentinelFuse @ '' --macho-segment-name NODE_SEA''
             else ''npx postject '' @ dquote executableName @ '' NODE_SEA_BLOB '' @ dquote blobPath
                  @ '' --sentinel-fuse '' @ sentinelFuse)
      in try_catch
           (io_bind (execSync env command None)
              (\<lambda>out. if platform = ''win32'' then verifyWindowsExecutable env executableName
                      else io_return ()))
           (\<lambda>error. io_throw (Error (''Failed to inject blob: '' @ message error))))"

text \<open>
  \<^verbatim>\<open>
  async signExecutable(platform, executableName) {
    try {
      if (platform === 'darwin') {
        execSync(`codesign --sign - "${executableName}"`, { stdio: 'ignore' });
      } else if (platform === 'win32') {
        execSync(`signtool sign /fd SHA256 "${executableName}"`, { stdio: 'ignore' });
      }
    } catch (error) {
      console.warn(`Warning: Could not sign executable for ${platform}. The executable should still work.`);
    }
  }
  \<close>
\<close>

definition signExecutable :: "env \<Rightarrow> string \<Rightarrow> string \<Rightarrow> unit io" where
  "signExecutable env platform executableName =
     try_catch
       (if platform = ''darwin'' then
          io_bind (execSync env (''codesign --sign - '' @ dquote executableName) None)
            (\<lambda>out. io_return ())
        else if platform = ''win32'' then
          io_bind (execSync env (''signtool sign /fd SHA256 '' @ dquote executableName) None)
            (\<lambda>out. io_return ())
        else io_return ())
       (\<lambda>error. console ''warn''
          (''Warning: Could not sign executable for '' @ platform
           @ ''. The executable should still work.''))"

subsection \<open>Choosing the version to download\<close>

text \<open>
  \<^verbatim>\<open>
  async getRecommendedNodeVersion() {
    try {
      const response = await axios.get('https://nodejs.org/dist/index.json');
      const versions = response.data;
      const minVersion = '19.9.0';
      const maxVersion = '22.99.99';
      const validVersions = versions.filter(v => {
        const version = v.version.slice(1);
        return semver.gte(version, minVersion) &&
               semver.lte(version, maxVersion) &&
               !v.version.includes('rc') &&
               !v.version.includes('beta');
      });
      if (validVersions.length === 0) {
        throw new Error(`No valid Node.js versions found (minimum: ${minVersion})`);
      }
      const preferredVersions = ['20.18.0', '20.17.0', '20.16.0', '20.15.1'];
      for (const preferred of preferredVersions) {
        const found = validVersions.find(v => v.version.slice(1) === preferred);
        if (found) {
          return found.version.slice(1);
        }
      }
      const latestLTS = validVersions.find(v => v.lts !== false && semver.major(v.version.slice(1)) === 20);
      if (latestLTS) {
        return latestLTS.version.slice(1);
      }
      return validVersions[0].version.slice(1);
    } catch (error) {
      console.warn('Failed to fetch latest Node.js version, using fallback');
      return '20.18.0';
    }
  }
  \<close>
  An entry that passes the filter has a string as its version; the filtered array is kept
  as the list of these strings (\<^verbatim>\<open>v.version\<close>), each with whether \<^verbatim>\<open>v.lts\<close> is
  \<^verbatim>\<open>false\<close>.
\<close>

definition axios_get_index :: "env \<Rightarrow> index_data io" where
  "axios_get_index env =
     (\<lambda>w. case http_index env w of
            Inl m \<Rightarrow> (Inl (Error m), record_event (HttpGet ''https://nodejs.org/dist/index.json'') w)
          | Inr d \<Rightarrow> (Inr d, record_event (HttpGet ''https://nodejs.org/dist/index.json'') w))"

definition valid_version :: "env \<Rightarrow> version_entry \<Rightarrow> js_error + bool" where
  "valid_version env v =
     (let minVersion = ''19.9.0''; maxVersion = ''22.99.99''
      in case entry_version v of
           None \<Rightarrow> Inl (Error ''TypeError: v.version.slice is not a function'')
         | Some v_version \<Rightarrow>
             (let version = slice1 v_version
              in case semver_gte env version minVersion of
                   Inl e \<Rightarrow> Inl e
                 | Inr False \<Rightarrow> Inr False
                 | Inr True \<Rightarrow>
                     (case semver_lte env version maxVersion of
                        Inl e \<Rightarrow> Inl e
                      | Inr False \<Rightarrow> Inr False
                      | Inr True \<Rightarrow>
                          Inr (\<not> includes_str v_version ''rc'' \<and> \<not> includes_str v_version ''beta''))))"

fun filter_versions :: "env \<Rightarrow> version_entry list \<Rightarrow> js_error + (string \<times> bool) list" where
  "filter_versions env [] = Inr []"
| "filter_versions env (v # vs) =
     (case valid_version env v of
        Inl e \<Rightarrow> Inl e
      | Inr keep \<Rightarrow>
          (case filter_versions env vs of
             Inl e \<Rightarrow> Inl e
           | Inr rest \<Rightarrow>
               Inr (if keep
                    then (case entry_version v of None \<Rightarrow> [] | Some s \<Rightarrow> [(s, entry_lts_false v)]) @ rest
                    else rest)))"

fun find_preferred :: "string list \<Rightarrow> (string \<times> bool) list \<Rightarrow> string option" where
  "find_preferred [] validVersions = None"
| "find_preferred (preferred # others) validVersions =
     (case find (\<lambda>v. slice1 (fst v) = preferred) validVersions of
        Some found \<Rightarrow> Some (slice1 (fst found))
      | None \<Rightarrow> find_preferred others validVersions)"

fun find_lts :: "env \<Rightarrow> (string \<times> bool) list \<Rightarrow> js_error + (string \<times> bool) option" where
  "find_lts env [] = Inr None"
| "find_lts env (v # vs) =
     (if snd v then find_lts env vs
      else (case semver_major env (slice1 (fst v)) of
              Inl e \<Rightarrow> Inl e
            | Inr m \<Rightarrow> if m = 20 then Inr (Some v) else find_lts env vs))"

definition getRecommendedNodeVersion :: "env \<Rightarrow> string io" where
  "getRecommendedNodeVersion env =
     try_catch
       (io_bind (axios_get_index env)
          (\<lambda>versions.
             case (case versions of
                     NotArray \<Rightarrow> Inl (Error ''TypeError: versions.filter is not a function'')
                   | Entries vs \<Rightarrow> filter_versions env vs) of
               Inl e \<Rightarrow> io_throw e
             | Inr validVersions \<Rightarrow>
                 (case validVersions of
                    [] \<Rightarrow> io_throw (Error ''No valid Node.js versions found (minimum: 19.9.0)'')
                  | first # others \<Rightarrow>
                      (case find_preferred [''20.18.0'', ''20.17.0'', ''20.16.0'', ''20.15.1'']
                              validVersions of
                         Some version \<Rightarrow> io_return version
                       | None \<Rightarrow>
                           (case find_lts env validVersions of
                              Inl e \<Rightarrow> io_throw e
                            | Inr (Some latestLTS) \<Rightarrow> io_return (slice1 (fst latestLTS))
                            | Inr None \<Rightarrow> io_return (slice1 (fst first)))))))
       (\<lambda>error. io_bind
                   (console ''warn'' ''Failed to fetch latest Node.js version, using fallback'')
                   (\<lambda>u. io_return ''20.18.0''))"

subsection \<open>The cache of downloaded binaries\<close>

text \<open>
  \<open>downloadFile\<close> is the request and the stream piped into the file: it fails before
  anything is written, or part way (leaving what was written, if anything), or it
  completes and the file holds the body.
\<close>

definition downloadFile :: "env \<Rightarrow> string \<Rightarrow> path \<Rightarrow> unit io" where
  "downloadFile env url filePath =
     (\<lambda>w. let w1 = record_event (Download url filePath) w;
              written = (\<lambda>bytes. w1\<lparr>disk := (disk w)(filePath \<mapsto> (Regular (Bytes bytes), default_mode env))\<rparr>)
          in case http_download env url w of
               RequestFailed m \<Rightarrow> (Inl (Error m), w1)
             | StreamFailed m part \<Rightarrow>
                 (Inl (Error m), case part of None \<Rightarrow> w1 | Some bytes \<Rightarrow> written bytes)
             | Completed body \<Rightarrow> (Inr (), written body))"

text \<open>
  \<open>extractZip\<close> is a promise around the \<^verbatim>\<open>yauzl\<close> library, which writes
  \<^verbatim>\<open>node.exe\<close> into the directory: it resolves or rejects, and the disk it leaves is the
  library's. In \<open>extractTarGz\<close> the \<^verbatim>\<open>tar\<close> library extracts the one member, and the
  code moves it up and removes the folder:
  \<^verbatim>\<open>
  async extractTarGz(tarPath, extractDir, version, platform) {
    const folderName = `node-v${version}-${platform}-x64`;
    const nodeBinaryPath = `${folderName}/bin/node`;
    await tar.extract({ file: tarPath, cwd: extractDir, filter: (path) => path === nodeBinaryPath });
    const extractedPath = path.join(extractDir, nodeBinaryPath);
    const finalPath = path.join(extractDir, 'node');
    if (fs.existsSync(extractedPath)) {
      fs.renameSync(extractedPath, finalPath);
      const folderPath = path.join(extractDir, folderName);
      if (fs.existsSync(folderPath)) {
        fs.rmSync(folderPath, { recursive: true, force: true });
      }
    }
  }
  \<close>
\<close>

definition extractZip :: "env \<Rightarrow> path \<Rightarrow> path \<Rightarrow> string \<Rightarrow> string \<Rightarrow> unit io" where
  "extractZip env zipPath extractDir version platform =
     (\<lambda>w. case unzip_outcome env zipPath extractDir w of
            (Inl m, d) \<Rightarrow> (Inl (Error m), record_event (Unzip zipPath extractDir) (w\<lparr>disk := d\<rparr>))
          | (Inr u, d) \<Rightarrow> (Inr (), record_event (Unzip zipPath extractDir) (w\<lparr>disk := d\<rparr>)))"

definition tar_extract :: "env \<Rightarrow> path \<Rightarrow> path \<Rightarrow> string \<Rightarrow> unit io" where
  "tar_extract env file cwd member =
     (\<lambda>w. case tar_outcome env file cwd member w of
            (Inl m, d) \<Rightarrow> (Inl (Error m), record_event (TarExtract file cwd member) (w\<lparr>disk := d\<rparr>))
          | (Inr u, d) \<Rightarrow> (Inr (), record_event (TarExtract file cwd member) (w\<lparr>disk := d\<rparr>)))"

definition extractTarGz :: "env \<Rightarrow> path \<Rightarrow> path \<Rightarrow> string \<Rightarrow> string \<Rightarrow> unit io" where
  "extractTarGz env tarPath extractDir version platform =
     (let folderName = ''node-v'' @ version @ ''-'' @ platform @ ''-x64'';
          nodeBinaryPath = folderName @ ''/bin/node''
      in io_bind (tar_extract env tarPath extractDir nodeBinaryPath)
           (\<lambda>u. let extractedPath = path_join env [extractDir, nodeBinaryPath];
                    finalPath = path_join env [extractDir, ''node'']
                in io_bind (io_get (existsSync extractedPath))
                     (\<lambda>extracted.
                        if extracted then
                          io_bind (fs env (RenameSync extractedPath finalPath))
                            (\<lambda>u. let folderPath = path_join env [extractDir, folderName]
                                 in io_bind (io_get (existsSync folderPath))
                                      (\<lambda>folder. if folder then fs env (RmSync folderPath)
                                                 else io_return ()))
                        else io_return ())))"

definition extractNodeBinary :: "env \<Rightarrow> path \<Rightarrow> path \<Rightarrow> string \<Rightarrow> string \<Rightarrow> unit io" where
  "extractNodeBinary env archivePath extractDir platform version =
     (if platform = ''win32'' then extractZip env archivePath extractDir version platform
      else extractTarGz env archivePath extractDir version platform)"

text \<open>
  \<^verbatim>\<open>
  async downloadNodeBinary(platform) {
    const version = await this.getRecommendedNodeVersion();
    const cacheDir = path.join(os.homedir(), '.node-package-builder', 'cache');
    const platformDir = path.join(cacheDir, platform);
    const versionDir = path.join(platformDir, version);
    if (!fs.existsSync(cacheDir)) { fs.mkdirSync(cacheDir, { recursive: true }); }
    if (!fs.existsSync(platformDir)) { fs.mkdirSync(platformDir, { recursive: true }); }
    const executableName = platform === 'win32' ? 'node.exe' : 'node';
    const executablePath = path.join(versionDir, executableName);
    if (fs.existsSync(executablePath)) {
      console.log(`Using cached Node.js ${version} for ${platform}`);
      return executablePath;
    }
    console.log(`Downloading Node.js ${version} for ${platform}...`);
    const downloadUrl = this.getNodeDownloadUrl(version, platform);
    const archivePath = path.join(platformDir, `node-${version}-${platform}.${platform === 'win32' ? 'zip' : 'tar.gz'}`);
    await this.downloadFile(downloadUrl, archivePath);
    if (!fs.existsSync(versionDir)) { fs.mkdirSync(versionDir, { recursive: true }); }
    await this.extractNodeBinary(archivePath, versionDir, platform, version);
    fs.unlinkSync(archivePath);
    if (!fs.existsSync(executablePath)) {
      throw new Error(`Failed to extract Node.js executable for ${platform}`);
    }
    if (platform !== 'win32') { fs.chmodSync(executablePath, '755'); }
    return executablePath;
  }
  \<close>
  The paths of the cache, and the mode \<^verbatim>\<open>'755'\<close> (octal) as a number:
\<close>

definition cacheDir :: "env \<Rightarrow> path" where
  "cacheDir env = path_join env [os_homedir env, ''.node-package-builder'', ''cache'']"

definition platformDir :: "env \<Rightarrow> string \<Rightarrow> path" where
  "platformDir env platform = path_join env [cacheDir env, platform]"

definition versionDir :: "env \<Rightarrow> string \<Rightarrow> string \<Rightarrow> path" where
  "versionDir env platform version = path_join env [platformDir env platform, version]"

definition executablePath :: "env \<Rightarrow> string \<Rightarrow> string \<Rightarrow> path" where
  "executablePath env platform version =
     path_join env [versionDir env platform version,
                    if platform = ''win32'' then ''node.exe'' else ''node'']"

definition archivePath :: "env \<Rightarrow> string \<Rightarrow> string \<Rightarrow> path" where
  "archivePath env platform version =
     path_join env [platformDir env platform,
                    ''node-'' @ version @ ''-'' @ platform @ ''.''
                    @ (if platform = ''win32'' then ''zip'' else ''tar.gz'')]"

definition mode_755 :: nat where
  "mode_755 = 7 * 64 + 5 * 8 + 5"

definition ensure_dir :: "env \<Rightarrow> path \<Rightarrow> unit io" where
  "ensure_dir env dir =
     io_bind (io_get (existsSync dir))
       (\<lambda>present. if \<not> present then fs env (MkdirSync dir) else io_return ())"

text \<open>The statements of \<open>downloadNodeBinary\<close> that follow a cache miss.\<close>

definition downloadNodeBinary_miss :: "env \<Rightarrow> string \<Rightarrow> string \<Rightarrow> path io" where
  "downloadNodeBinary_miss env platform version =
     io_bind (console ''log'' (''Downloading Node.js '' @ version @ '' for '' @ platform @ ''...''))
    (\<lambda>u. case getNodeDownloadUrl version platform of
       Inl e \<Rightarrow> io_throw e
     | Inr downloadUrl \<Rightarrow>
     io_bind (downloadFile env downloadUrl (archivePath env platform version))
    (\<lambda>u. io_bind (ensure_dir env (versionDir env platform version))
    (\<lambda>u. io_bind (extractNodeBinary env (archivePath env platform version)
                    (versionDir env platform version) platform version)
    (\<lambda>u. io_bind (fs env (UnlinkSync (archivePath env platform version)))
    (\<lambda>u. io_bind (io_get (existsSync (executablePath env platform version)))
    (\<lambda>extracted.
       if \<not> extracted then
         io_throw (Error (''Failed to extract Node.js executable for '' @ platform))
       else
         io_bind (if platform \<noteq> ''win32''
                  then fs env (ChmodSync (executablePath env platform version) mode_755)
                  else io_return ())
           (\<lambda>u. io_return (executablePath env platform version))))))))"

definition downloadNodeBinary :: "env \<Rightarrow> string \<Rightarrow> path io" where
  "downloadNodeBinary env platform =
     io_bind (getRecommendedNodeVersion env)
    (\<lambda>version. io_bind (ensure_dir env (cacheDir env))
    (\<lambda>u. io_bind (ensure_dir env (platformDir env platform))
    (\<lambda>u. io_bind (io_get (existsSync (executablePath env platform version)))
    (\<lambda>cached.
       if cached then
         io_bind (console ''log'' (''Using cached Node.js '' @ version @ '' for '' @ platform))
           (\<lambda>u. io_return (executablePath env platform version))
       else downloadNodeBinary_miss env platform version))))"

text \<open>
  \<^verbatim>\<open>
  async createExecutable(platform, executableName) {
    let nodePath;
    if (platform === process.platform) {
      nodePath = process.execPath;
    } else {
      nodePath = await this.downloadNodeBinary(platform);
    }
    if (platform === 'win32' && !executableName.endsWith('.exe')) {
      executableName += '.exe';
    }
    try {
      fs.copyFileSync(nodePath, executableName);
    } catch (error) {
      throw new Error(`Failed to copy Node.js executable from '${nodePath}' to '${executableName}': ${error.message}`);
    }
    if (platform === 'darwin') {
      try {
        execSync(`codesign --remove-signature "${executableName}"`, { stdio: 'ignore' });
      } catch (error) {
        console.warn('Warning: Could not remove signature. Continuing...');
      }
    }
    if (platform === 'win32') {
      try {
        execSync(`signtool remove /s "${executableName}"`, { stdio: 'ignore' });
      } catch (error) {
        console.warn('Warning: Could not remove signature. Continuing...');
      }
    }
  }
  \<close>
\<close>

definition remove_signature :: "env \<Rightarrow> string \<Rightarrow> unit io" where
  "remove_signature env command =
     try_catch (io_bind (execSync env command None) (\<lambda>out. io_return ()))
       (\<lambda>error. console ''warn'' ''Warning: Could not remove signature. Continuing...'')"

definition createExecutable :: "env \<Rightarrow> string \<Rightarrow> string \<Rightarrow> unit io" where
  "createExecutable env platform executableName =
     io_bind (if platform = process_platform env then io_return (process_execPath env)
              else downloadNodeBinary env platform)
       (\<lambda>nodePath.
          let executableName =
                (if platform = ''win32'' \<and> \<not> endsWith executableName ''.exe''
                 then executableName @ ''.exe'' else executableName)
          in io_bind
               (try_catch (fs env (CopyFileSync nodePath executableName))
                  (\<lambda>error. io_throw (Error (''Failed to copy Node.js executable from '' @ quote nodePath
                                             @ '' to '' @ quote executableName @ '': '' @ message error))))
               (\<lambda>u. io_bind
                       (if platform = ''darwin''
                        then remove_signature env (''codesign --remove-signature '' @ dquote executableName)
                        else io_return ())
                       (\<lambda>u. if platform = ''win32''
                             then remove_signature env (''signtool remove /s '' @ dquote executableName)
                             else io_return ())))"

subsection \<open>Cleaning up, and the build\<close>

text \<open>
  \<^verbatim>\<open>
  cleanup(files) {
    files.forEach(file => {
      try {
        if (fs.existsSync(file)) {
          fs.unlinkSync(file);
        }
      } catch (error) {
        console.warn(`Warning: Could not clean up ${file}`);
      }
    });
  }

  cleanupTempDir() {
    try {
      if (fs.existsSync(this.tempBuildDir)) {
        fs.rmSync(this.tempBuildDir, { recursive: true, force: true });
        console.log(`Cleaned up temporary build directory: ${this.tempBuildDir}`);
      }
    } catch (error) {
      console.warn(`Warning: Could not clean up temp directory ${this.tempBuildDir}: ${error.message}`);
    }
  }
  \<close>
\<close>

fun cleanup :: "env \<Rightarrow> path list \<Rightarrow> unit io" where
  "cleanup env [] = io_return ()"
| "cleanup env (file # files) =
     io_bind
       (try_catch
          (io_bind (io_get (existsSync file))
             (\<lambda>present. if present then fs env (UnlinkSync file) else io_return ()))
          (\<lambda>error. console ''warn'' (''Warning: Could not clean up '' @ file)))
       (\<lambda>u. cleanup env files)"

definition cleanupTempDir :: "env \<Rightarrow> builder \<Rightarrow> unit io" where
  "cleanupTempDir env this =
     try_catch
       (io_bind (io_get (existsSync (tempBuildDir env this)))
          (\<lambda>present.
             if present then
               io_bind (fs env (RmSync (tempBuildDir env this)))
                 (\<lambda>u. console ''log''
                         (''Cleaned up temporary build directory: '' @ tempBuildDir env this))
             else io_return ()))
       (\<lambda>error. console ''warn''
          (''Warning: Could not clean up temp directory '' @ tempBuildDir env this @ '': ''
           @ message error))"

text \<open>
  A build result is the object \<^verbatim>\<open>{platform, success, executable, path, buildId}\<close> of a
  success or \<^verbatim>\<open>{platform, success, error}\<close> of a failure; a key that the object does
  not have is \<open>None\<close>.
  \<^verbatim>\<open>
  async buildForPlatform(platform) {
    const configPath = this.createSeaConfig(platform);
    const blobPath = path.join(this.tempBuildDir, `sea-prep-${platform}.blob`);
    const executableName = this.getExecutableName(platform);
    try {
      this.generateBlob(configPath);
      await this.createExecutable(platform, executableName);
      await this.injectBlob(platform, executableName, blobPath);
      if (platform === 'darwin' || platform === 'win32') {
        await this.signExecutable(platform, executableName);
      }
      this.cleanup([configPath, blobPath]);
      return { platform, success: true, executable: executableName,
               path: path.resolve(executableName), buildId: this.buildId };
    } catch (error) {
      this.cleanup([configPath, blobPath]);
      throw error;
    }
  }
  \<close>
\<close>

record build_result =
  result_platform :: string
  result_success :: bool
  result_executable :: "string option"
  result_path :: "string option"
  result_buildId :: "string option"
  result_error :: "string option"

definition blobPath :: "env \<Rightarrow> builder \<Rightarrow> string \<Rightarrow> path" where
  "blobPath env this platform =
     path_join env [tempBuildDir env this, ''sea-prep-'' @ platform @ ''.blob'']"

definition buildForPlatform :: "env \<Rightarrow> builder \<Rightarrow> string \<Rightarrow> build_result io" where
  "buildForPlatform env this platform =
     io_bind (createSeaConfig env this platform)
    (\<lambda>configPath.
       let executableName = getExecutableName this platform
       in try_catch
            (io_bind (generateBlob env configPath)
            (\<lambda>u. io_bind (createExecutable env platform executableName)
            (\<lambda>u. io_bind (injectBlob env platform executableName (blobPath env this platform))
            (\<lambda>u. io_bind (if platform = ''darwin'' \<or> platform = ''win32''
                           then signExecutable env platform executableName
                           else io_return ())
            (\<lambda>u. io_bind (cleanup env [configPath, blobPath env this platform])
            (\<lambda>u. io_return
                    \<lparr>result_platform = platform,
                     result_success = True,
                     result_executable = Some executableName,
                     result_path = Some (path_resolve env executableName),
                     result_buildId = Some (buildId this),
                     result_error = None\<rparr>))))))
            (\<lambda>error. io_bind (cleanup env [configPath, blobPath env this platform])
                        (\<lambda>u. io_throw error)))"

text \<open>
  \<^verbatim>\<open>
  async build() {
    const results = [];
    try {
      for (const platform of this.options.platforms) {
        try {
          const result = await this.buildForPlatform(platform);
          results.push(result);
        } catch (error) {
          console.error(`Failed to build for ${platform}:`, error.message);
          results.push({ platform, success: false, error: error.message });
        }
      }
      return results;
    } finally {
      this.cleanupTempDir();
    }
  }
  \<close>
  \<open>build_loop\<close> is the \<^verbatim>\<open>for\<close> loop over the platforms still to build, with the results
  pushed so far.
\<close>

fun build_loop :: "env \<Rightarrow> builder \<Rightarrow> string list \<Rightarrow> build_result list \<Rightarrow> build_result list io" where
  "build_loop env this [] results = io_return results"
| "build_loop env this (platform # rest) results =
     io_bind
       (try_catch
          (io_bind (buildForPlatform env this platform)
             (\<lambda>result. io_return (results @ [result])))
          (\<lambda>error.
             io_bind (console ''error'' (''Failed to build for '' @ platform @ '': '' @ message error))
               (\<lambda>u. io_return
                       (results @ [\<lparr>result_platform = platform,
                                    result_success = False,
                                    result_executable = None,
                                    result_path = None,
                                    result_buildId = None,
                                    result_error = Some (message error)\<rparr>]))))
       (\<lambda>results. build_loop env this rest results)"

definition build :: "env \<Rightarrow> builder \<Rightarrow> build_result list io" where
  "build env this =
     try_finally (build_loop env this (platforms (options this)) []) (cleanupTempDir env this)"

section \<open>Sample environments\<close>

text \<open>
  A Linux host on which nothing fails: paths are joined with a slash, external commands
  print nothing and leave the disk alone, the version index lists three releases and a
  release candidate, a download completes, and the archive libraries put the binary where the code looks for
  it. The other environments differ from it in one behaviour each.
\<close>

fun join_slash :: "string list \<Rightarrow> string" where
  "join_slash [] = ''.''"
| "join_slash [s] = s"
| "join_slash (s # t # ss) = s @ ''/'' @ join_slash (t # ss)"

definition sample_index :: "version_entry list" where
  "sample_index =
     [\<lparr>entry_version = Some ''v23.1.0'', entry_lts_false = True\<rparr>,
      \<lparr>entry_version = Some ''v22.0.0-rc.1'', entry_lts_false = True\<rparr>,
      \<lparr>entry_version = Some ''v20.11.0'', entry_lts_false = False\<rparr>,
      \<lparr>entry_version = Some ''v18.20.0'', entry_lts_false = False\<rparr>]"

definition sample_env :: env where
  "sample_env =
     \<lparr>process_platform = ''linux'',
      process_execPath = ''/usr/bin/node'',
      os_homedir = ''/home/u'',
      path_join = join_slash,
      path_resolve = (\<lambda>s. ''/work/'' @ s),
      path_below = (\<lambda>p q. take (length p + 1) q = p @ ''/''),
      default_mode = 420,
      fs_fault = (\<lambda>call w. None),
      exec_outcome = (\<lambda>command timeout w. (Inr [], disk w)),
      http_index = (\<lambda>w. Inr (Entries sample_index)),
      http_download = (\<lambda>url w. Completed ''archive''),
      tar_outcome =
        (\<lambda>file cwd member w.
           (Inr (), (disk w)(join_slash [cwd, member] \<mapsto> (Regular (Bytes ''node''), 420)))),
      unzip_outcome =
        (\<lambda>file cwd w.
           (Inr (), (disk w)(join_slash [cwd, ''node.exe''] \<mapsto> (Regular (Bytes ''node''), 420)))),
      semver_gte = (\<lambda>a b. Inr (a \<in> set [''23.1.0'', ''22.0.0-rc.1'', ''20.11.0'', ''20.18.0''])),
      semver_lte = (\<lambda>a b. Inr (a \<in> set [''22.0.0-rc.1'', ''20.11.0'', ''20.18.0'', ''18.20.0''])),
      semver_major = (\<lambda>a. Inr (if a = ''20.11.0'' then 20 else 0))\<rparr>"


definition sample_world :: world where
  "sample_world =
     \<lparr>disk = [''/tmp/npb'' \<mapsto> (Directory, 493), ''/tmp/npb/build-1-ab'' \<mapsto> (Directory, 493),
              ''/usr/bin/node'' \<mapsto> (Regular (Bytes ''node''), 493)],
      trace = []\<rparr>"

text \<open>The re-invocation of the built executable runs into its timeout.\<close>

definition timeout_env :: env where
  "timeout_env =
     sample_env\<lparr>exec_outcome :=
       (\<lambda>command timeout w.
          if timeout = Some 5000 then (Inl ''spawnSync /bin/sh ETIMEDOUT'', disk w)
          else (Inr [], disk w))\<rparr>"





section \<open>Notions of the specification\<close>

text \<open>
  A version is within the range of the resolver when the \<^verbatim>\<open>semver\<close> library places it at
  or above \<open>19.9.0\<close> and at or below \<open>22.99.99\<close>. An entry passes the filter when its
  version, without its first character, is within the range and the version has neither
  \<open>rc\<close> nor \<open>beta\<close> in it. The resolution fails when the request fails, when the body is
  not an array, when the filter throws or keeps nothing, or when the search for a
  long-term-support release throws.
\<close>

definition in_version_range :: "env \<Rightarrow> string \<Rightarrow> bool" where
  "in_version_range env version =
     (semver_gte env version ''19.9.0'' = Inr True \<and> semver_lte env version ''22.99.99'' = Inr True)"

definition passes_filter :: "env \<Rightarrow> string \<Rightarrow> bool" where
  "passes_filter env s =
     (in_version_range env (slice1 s) \<and> \<not> includes_str s ''rc'' \<and> \<not> includes_str s ''beta'')"

definition resolution_fails :: "env \<Rightarrow> world \<Rightarrow> bool" where
  "resolution_fails env w =
     (case http_index env w of
        Inl m \<Rightarrow> True
      | Inr NotArray \<Rightarrow> True
      | Inr (Entries vs) \<Rightarrow>
          (case filter_versions env vs of
             Inl e \<Rightarrow> True
           | Inr [] \<Rightarrow> True
           | Inr (first # others) \<Rightarrow>
               (case find_preferred [''20.18.0'', ''20.17.0'', ''20.16.0'', ''20.15.1'']
                       (first # others) of
                  Some version \<Rightarrow> False
                | None \<Rightarrow> (case find_lts env (first # others) of Inl e \<Rightarrow> True | Inr found \<Rightarrow> False))))"

text \<open>The network is down.\<close>

definition offline_env :: env where
  "offline_env = sample_env\<lparr>http_index := (\<lambda>w. Inl ''getaddrinfo ENOTFOUND nodejs.org'')\<rparr>"

text \<open>
  What the resolver may return: a version without \<open>rc\<close> and \<open>beta\<close> in it that is the
  fallback or is within the range.
\<close>

definition chosen :: "env \<Rightarrow> string \<Rightarrow> bool" where
  "chosen env version =
     (\<not> includes_str version ''rc'' \<and> \<not> includes_str version ''beta''
      \<and> (version = ''20.18.0'' \<or> in_version_range env version))"




text \<open>
  The downloads recorded in a world, in order, and the event that the extraction of the
  archive of a platform leaves in the trace.
\<close>

definition is_download :: "event \<Rightarrow> bool" where
  "is_download ev = (case ev of Download url p \<Rightarrow> True | _ \<Rightarrow> False)"

definition downloads :: "world \<Rightarrow> event list" where
  "downloads w = filter is_download (trace w)"

definition extraction_event :: "env \<Rightarrow> string \<Rightarrow> string \<Rightarrow> event" where
  "extraction_event env platform version =
     (if platform = ''win32''
      then Unzip (archivePath env platform version) (versionDir env platform version)
      else TarExtract (archivePath env platform version) (versionDir env platform version)
             (''node-v'' @ version @ ''-'' @ platform @ ''-x64'' @ ''/bin/node''))"

text \<open>
  A world whose cache already holds the binary for \<open>darwin\<close>, and an environment in which
  the archive does not contain the binary.
\<close>

definition warm_world :: world where
  "warm_world =
     \<lparr>disk = [''/home/u/.node-package-builder/cache'' \<mapsto> (Directory, 493),
              ''/home/u/.node-package-builder/cache/darwin'' \<mapsto> (Directory, 493),
              ''/home/u/.node-package-builder/cache/darwin/20.11.0'' \<mapsto> (Directory, 493),
              ''/home/u/.node-package-builder/cache/darwin/20.11.0/node''
                \<mapsto> (Regular (Bytes ''node''), 493)],
      trace = []\<rparr>"

definition empty_archive_env :: env where
  "empty_archive_env = sample_env\<lparr>tar_outcome := (\<lambda>file cwd member w. (Inr (), disk w))\<rparr>"

text \<open>
  What the loop compares when a component is no number: \<^verbatim>\<open>NaN || 0\<close> is 0, so the
  component counts as the number 0, as a missing component does. \<open>component_value c\<close> is
  the number compared for the component \<open>c\<close>, and \<open>components_ge\<close> compares two lists of
  such numbers from left to right, a list that has run out counting as zeros.
\<close>

definition component_value :: "string \<Rightarrow> jsnum" where
  "component_value c = (if Number c = NaN then Fin 0 else Number c)"

fun components_ge :: "jsnum list \<Rightarrow> jsnum list \<Rightarrow> bool" where
  "components_ge [] [] = True"
| "components_ge (c # cs) [] =
     (if js_lt (Fin 0) c then True else if js_lt c (Fin 0) then False else components_ge cs [])"
| "components_ge [] (r # rs) =
     (if js_lt r (Fin 0) then True else if js_lt (Fin 0) r then False else components_ge [] rs)"
| "components_ge (c # cs) (r # rs) =
     (if js_lt r c then True else if js_lt c r then False else components_ge cs rs)"

section \<open>Properties\<close>

subsection \<open>Reading decimal numerals\<close>

lemma round_half_even_of_int: "round_half_even (of_int m) = m"
  by (simp add: round_half_even_def)

lemma pow2_le52: "k \<le> 52 \<Longrightarrow> pow2 (k - 52) = 1 / 2 ^ nat (52 - k)"
  by (auto simp: pow2_def)

lemma binade_of_int: "0 < n \<Longrightarrow> binade (of_int n) = bitlen n - 1"
  by (simp add: binade_def)

lemma to_double_of_int:
  assumes "0 \<le> n" and "n < 2 ^ 53"
  shows "to_double (of_int n) = Fin (of_int n)"
proof (cases "n = 0")
  case True
  then show ?thesis by (simp add: to_double_def)
next
  case False
  with assms have pos: "0 < n" by simp
  define k where "k = bitlen n - 1"
  have k0: "0 \<le> k"
    using pos bitlen_eq_zero_iff [of n] bitlen_nonneg [of n] by (simp add: k_def)
  have "2 ^ nat k \<le> n"
    using bitlen_bounds [OF pos] by (simp add: k_def)
  with assms have lt53: "(2::int) ^ nat k < 2 ^ 53" by linarith
  have "nat k < 53" by (rule power_less_imp_less_exp [OF _ lt53]) simp
  with k0 have k52: "k \<le> 52" by linarith
  have mx: "max k (- 1022) = k" using k0 by simp
  define m where "m = n * 2 ^ nat (52 - k)"
  have quot: "(of_int n :: rat) / pow2 (k - 52) = of_int m"
    by (simp add: pow2_le52 [OF k52] m_def)
  have bk: "(of_int m :: rat) * pow2 (k - 52) = of_int n"
    by (simp add: pow2_le52 [OF k52] m_def)
  have small: "\<not> pow2 1024 \<le> (of_int n :: rat)"
  proof -
    have "(of_int n :: rat) < of_int (2 ^ 53)" using assms(2) by (simp only: of_int_less_iff)
    also have "\<dots> \<le> pow2 1024" by (simp add: pow2_def)
    finally show ?thesis by simp
  qed
  have absn: "\<bar>of_int n :: rat\<bar> = of_int n" using pos by simp
  show ?thesis
    using pos False small
    by (simp add: to_double_def Let_def absn binade_of_int [OF pos] k_def [symmetric] mx quot bk
        round_half_even_of_int)
qed


lemma is_digit_10: "is_digit 10 c \<Longrightarrow> c \<in> set ''0123456789''"
  by (auto simp: is_digit_def digit_value_def split: if_splits)

lemma digit_value_range: "is_digit 10 c \<Longrightarrow> \<exists>d. digit_value c = Some d \<and> 0 \<le> d \<and> d < 10"
  by (auto simp: is_digit_def digit_value_def split: if_splits)

lemma radix_value_snoc:
  "radix_value b (ds @ [c]) = radix_value b ds * b + (case digit_value c of None \<Rightarrow> 0 | Some d \<Rightarrow> d)"
  by (simp add: radix_value_def)

lemma radix_value_bounds:
  "list_all (is_digit 10) ds \<Longrightarrow> 0 \<le> radix_value 10 ds \<and> radix_value 10 ds < 10 ^ length ds"
proof (induction ds rule: rev_induct)
  case Nil
  then show ?case by (simp add: radix_value_def)
next
  case (snoc c ds)
  then have ih: "0 \<le> radix_value 10 ds" "radix_value 10 ds < 10 ^ length ds" by simp_all
  from snoc obtain d where d: "digit_value c = Some d" "0 \<le> d" "d < 10"
    using digit_value_range [of c] by auto
  have "radix_value 10 ds + 1 \<le> 10 ^ length ds" using ih by simp
  then have "(radix_value 10 ds + 1) * 10 \<le> 10 ^ length ds * 10" by (rule mult_right_mono) simp
  with d ih show ?case by (simp add: radix_value_snoc algebra_simps)
qed

lemma digit_not_ws: "is_digit 10 c \<Longrightarrow> \<not> is_ws c"
  by (auto dest!: is_digit_10 simp: is_ws_def)

lemma trim_ws_digits:
  assumes "list_all (is_digit 10) ds"
  shows "trim_ws ds = ds"
proof (cases ds rule: rev_cases)
  case Nil
  then show ?thesis by (simp add: trim_ws_def)
next
  case (snoc ys y)
  have a: "dropWhile is_ws ds = ds"
    using assms by (cases ds) (auto dest: digit_not_ws)
  have b: "dropWhile is_ws (rev ds) = rev ds"
    using assms snoc by (auto dest: digit_not_ws)
  show ?thesis by (simp add: trim_ws_def a b)
qed

lemma takeWhile_digits: "list_all (is_digit 10) ds \<Longrightarrow> takeWhile (is_digit 10) ds = ds"
  by (simp add: list_all_iff)

lemma dropWhile_digits: "list_all (is_digit 10) ds \<Longrightarrow> dropWhile (is_digit 10) ds = []"
  by (simp add: list_all_iff)

lemma nondecimal_digits:
  assumes "list_all (is_digit 10) ds"
  shows "nondecimal_literal ds = None"
proof (cases ds)
  case Nil
  then show ?thesis by (simp add: nondecimal_literal_def)
next
  case (Cons z t)
  show ?thesis
  proof (cases t)
    case Nil
    with Cons show ?thesis by (simp add: nondecimal_literal_def)
  next
    case (Cons x u)
    with assms \<open>ds = z # t\<close> have "is_digit 10 x" by simp
    then have "x \<in> set ''0123456789''" by (rule is_digit_10)
    then have "x \<notin> set ''xXoObB''" by auto
    then show ?thesis
      using Cons \<open>ds = z # t\<close> by (simp add: nondecimal_literal_def)
  qed
qed

lemma unsigned_decimal_numeral:
  assumes "decimal_numeral ds"
  shows "unsigned_decimal ds = Fin (of_int (radix_value 10 ds))"
proof -
  from assms have ne: "ds \<noteq> []" and dg: "list_all (is_digit 10) ds" and len: "length ds \<le> 15"
    by (simp_all add: decimal_numeral_def all_digits_def)
  have notinf: "ds \<noteq> ''Infinity''"
    using dg by (auto dest!: is_digit_10)
  have bnd: "0 \<le> radix_value 10 ds" "radix_value 10 ds < 10 ^ length ds"
    using radix_value_bounds [OF dg] by simp_all
  have "(10::int) ^ length ds \<le> 10 ^ 15"
    using len by (rule power_increasing) simp
  also have "\<dots> < 2 ^ 53" by simp
  finally have "radix_value 10 ds < 2 ^ 53" using bnd(2) by linarith
  then have "to_double (of_int (radix_value 10 ds)) = Fin (of_int (radix_value 10 ds))"
    using bnd(1) by (intro to_double_of_int)
  then show ?thesis
    using ne notinf
    by (simp add: unsigned_decimal_def Let_def takeWhile_digits [OF dg] dropWhile_digits [OF dg]
        exponent_part_def pow10_def)
qed

lemma Number_decimal_numeral:
  assumes "decimal_numeral ds"
  shows "Number ds = Fin (of_int (radix_value 10 ds))"
proof -
  from assms have ne: "ds \<noteq> []" and dg: "list_all (is_digit 10) ds"
    by (simp_all add: decimal_numeral_def all_digits_def)
  from ne obtain c u where cu: "ds = c # u" by (cases ds) auto
  with dg have "is_digit 10 c" by simp
  then have "c \<noteq> CHR ''+''" "c \<noteq> CHR ''-''" by (auto dest!: is_digit_10)
  moreover have "trim_ws (c # u) = c # u" "nondecimal_literal (c # u) = None"
    using trim_ws_digits [OF dg] nondecimal_digits [OF dg] cu by simp_all
  moreover have "unsigned_decimal (c # u) = Fin (of_int (radix_value 10 (c # u)))"
    using unsigned_decimal_numeral [OF assms] cu by simp
  ultimately show ?thesis
    by (simp add: Number_def Let_def cu)
qed

subsection \<open>The comparison loop\<close>

lemma js_lt_asym: "js_lt a b \<Longrightarrow> \<not> js_lt b a"
  by (cases a; cases b) auto

lemma or_zero_beyond: "length xs \<le> j \<Longrightarrow> or_zero (nth_opt xs j) = Fin 0"
  by (simp add: nth_opt_def or_zero_def)

lemma version_loop_closed:
  "version_loop C R i =
     (\<forall>j\<ge>i. js_lt (or_zero (nth_opt C j)) (or_zero (nth_opt R j)) \<longrightarrow>
        (\<exists>k. i \<le> k \<and> k < j \<and> js_gt (or_zero (nth_opt C k)) (or_zero (nth_opt R k))))"
proof (induction C R i rule: version_loop.induct)
  case (1 C R i)
  let ?c = "\<lambda>j. or_zero (nth_opt C j)"
  let ?r = "\<lambda>j. or_zero (nth_opt R j)"
  let ?rhs = "\<lambda>i. \<forall>j\<ge>i. js_lt (?c j) (?r j) \<longrightarrow> (\<exists>k. i \<le> k \<and> k < j \<and> js_gt (?c k) (?r k))"
  show ?case
  proof (cases "i < max (length C) (length R)")
    case False
    then have "\<And>j. i \<le> j \<Longrightarrow> ?c j = Fin 0 \<and> ?r j = Fin 0"
      by (simp add: or_zero_beyond)
    then have "?rhs i" by auto
    moreover have "version_loop C R i" using False by (subst version_loop.simps) simp
    ultimately show ?thesis by blast
  next
    case True
    consider (gt) "js_gt (?c i) (?r i)"
      | (lt) "\<not> js_gt (?c i) (?r i)" "js_lt (?c i) (?r i)"
      | (eq) "\<not> js_gt (?c i) (?r i)" "\<not> js_lt (?c i) (?r i)" by blast
    then show ?thesis
    proof cases
      case gt
      have "version_loop C R i" using True gt by (subst version_loop.simps) (simp add: Let_def)
      moreover have "?rhs i"
      proof (intro allI impI)
        fix j assume j: "i \<le> j" "js_lt (?c j) (?r j)"
        with gt have "j \<noteq> i" by (auto simp: js_gt_def dest: js_lt_asym)
        with j gt show "\<exists>k. i \<le> k \<and> k < j \<and> js_gt (?c k) (?r k)"
          by (intro exI [of _ i]) simp
      qed
      ultimately show ?thesis by blast
    next
      case lt
      have "\<not> version_loop C R i" using True lt by (subst version_loop.simps) (simp add: Let_def)
      moreover have "\<not> ?rhs i" using lt(2) by auto
      ultimately show ?thesis by blast
    next
      case eq
      have "version_loop C R i = version_loop C R (Suc i)"
        using True eq by (subst version_loop.simps) (simp add: Let_def)
      also have "\<dots> = ?rhs (Suc i)"
        using "1.IH" [OF True refl refl eq] .
      also have "\<dots> = ?rhs i"
      proof
        assume h: "?rhs (Suc i)"
        show "?rhs i"
        proof (intro allI impI)
          fix j assume j: "i \<le> j" "js_lt (?c j) (?r j)"
          with eq have "Suc i \<le> j" by (cases "j = i") auto
          with h j obtain k where "Suc i \<le> k" "k < j" "js_gt (?c k) (?r k)" by blast
          then show "\<exists>k. i \<le> k \<and> k < j \<and> js_gt (?c k) (?r k)"
            by (intro exI [of _ k]) simp
        qed
      next
        assume h: "?rhs i"
        show "?rhs (Suc i)"
        proof (intro allI impI)
          fix j assume j: "Suc i \<le> j" "js_lt (?c j) (?r j)"
          with h obtain k where k: "i \<le> k" "k < j" "js_gt (?c k) (?r k)"
            by (metis Suc_leD)
          with eq have "k \<noteq> i" by auto
          with k show "\<exists>k. Suc i \<le> k \<and> k < j \<and> js_gt (?c k) (?r k)"
            by (intro exI [of _ k]) simp
        qed
      qed
      finally show ?thesis .
    qed
  qed
qed

lemma or_zero_Fin: "or_zero (Some (Fin q)) = Fin q"
  by (simp add: or_zero_def)

lemma part_of_numeral:
  "or_zero (nth_opt (map (\<lambda>x. Fin (of_int x)) xs) i) = Fin (of_int (pad_zero n xs ! i))"
  if "i < n" "length xs \<le> n"
  using that by (simp add: nth_opt_def or_zero_Fin pad_zero_def nth_append or_zero_def)

lemma version_loop_numerals:
  assumes "n = max (length cs) (length rs)" "i \<le> n"
  shows "version_loop (map (\<lambda>x. Fin (of_int x)) cs) (map (\<lambda>x. Fin (of_int x)) rs) i =
           (drop i (pad_zero n rs) \<le> drop i (pad_zero n cs))"
  using assms(2)
proof (induction "n - i" arbitrary: i)
  case 0
  then have "i = n" by simp
  then show ?case
    using assms(1) by (subst version_loop.simps) (simp add: pad_zero_def)
next
  case (Suc d)
  then have lt: "i < n" by simp
  have lc: "length (pad_zero n cs) = n" and lr: "length (pad_zero n rs) = n"
    using assms(1) by (simp_all add: pad_zero_def)
  have dc: "drop i (pad_zero n cs) = pad_zero n cs ! i # drop (Suc i) (pad_zero n cs)"
    using lt lc by (simp add: Cons_nth_drop_Suc)
  have dr: "drop i (pad_zero n rs) = pad_zero n rs ! i # drop (Suc i) (pad_zero n rs)"
    using lt lr by (simp add: Cons_nth_drop_Suc)
  have ih: "version_loop (map (\<lambda>x. Fin (of_int x)) cs) (map (\<lambda>x. Fin (of_int x)) rs) (Suc i) =
           (drop (Suc i) (pad_zero n rs) \<le> drop (Suc i) (pad_zero n cs))"
    using Suc lt by (intro Suc.hyps(1)) simp_all
  have pc: "or_zero (nth_opt (map (\<lambda>x. Fin (of_int x)) cs) i) = Fin (of_int (pad_zero n cs ! i))"
    using lt assms(1) by (intro part_of_numeral) simp_all
  have pr: "or_zero (nth_opt (map (\<lambda>x. Fin (of_int x)) rs) i) = Fin (of_int (pad_zero n rs ! i))"
    using lt assms(1) by (intro part_of_numeral) simp_all
  have lt': "i < max (length (map (\<lambda>x. Fin (rat_of_int x)) cs)) (length (map (\<lambda>x. Fin (rat_of_int x)) rs))"
    using lt assms(1) by simp
  have "version_loop (map (\<lambda>x. Fin (of_int x)) cs) (map (\<lambda>x. Fin (of_int x)) rs) i =
          (if pad_zero n rs ! i < pad_zero n cs ! i then True
           else if pad_zero n cs ! i < pad_zero n rs ! i then False
           else drop (Suc i) (pad_zero n rs) \<le> drop (Suc i) (pad_zero n cs))"
    by (subst version_loop.simps) (simp add: lt' Let_def pc pr ih js_gt_def del: length_map)
  also have "\<dots> = (pad_zero n rs ! i # drop (Suc i) (pad_zero n rs)
                      \<le> pad_zero n cs ! i # drop (Suc i) (pad_zero n cs))"
    by auto
  finally show ?case by (simp only: dc dr)
qed

lemma isVersionGreaterOrEqual_numerals:
  assumes "list_all decimal_numeral (split_dot current)"
    and "list_all decimal_numeral (split_dot required)"
  shows "isVersionGreaterOrEqual current required =
           spec_version_ge (map (radix_value 10) (split_dot current))
                           (map (radix_value 10) (split_dot required))"
proof -
  have c: "map Number (split_dot current) =
           map (\<lambda>x. Fin (of_int x)) (map (radix_value 10) (split_dot current))"
    using assms(1) by (simp add: list_all_iff Number_decimal_numeral)
  have r: "map Number (split_dot required) =
           map (\<lambda>x. Fin (of_int x)) (map (radix_value 10) (split_dot required))"
    using assms(2) by (simp add: list_all_iff Number_decimal_numeral)
  show ?thesis
    unfolding isVersionGreaterOrEqual_def c r spec_version_ge_def Let_def
    by (subst version_loop_numerals [OF refl]) simp_all
qed

lemma numerals_eval:
  "list_all decimal_numeral (split_dot ''20.1.0'')"
  "list_all decimal_numeral (split_dot ''19.9.0'')"
  "list_all decimal_numeral (split_dot ''19.8.9'')"
  "list_all decimal_numeral (split_dot ''20.0.0'')"
  "list_all decimal_numeral (split_dot ''20'')"
  "list_all decimal_numeral (split_dot ''0'')"
  "map (radix_value 10) (split_dot ''20.1.0'') = [20, 1, 0]"
  "map (radix_value 10) (split_dot ''19.9.0'') = [19, 9, 0]"
  "map (radix_value 10) (split_dot ''19.8.9'') = [19, 8, 9]"
  "map (radix_value 10) (split_dot ''20.0.0'') = [20, 0, 0]"
  "map (radix_value 10) (split_dot ''20'') = [20]"
  "map (radix_value 10) (split_dot ''0'') = [0]"
  by (simp_all add: decimal_numeral_def all_digits_def is_digit_def radix_value_def digit_value_def)

lemma spec_eval:
  "spec_version_ge [20, 1, 0] [19, 9, 0]"
  "\<not> spec_version_ge [19, 8, 9] [19, 9, 0]"
  "spec_version_ge [20] [20, 0, 0]"
  "\<not> spec_version_ge [0] [19, 9, 0]"
  by (simp_all add: spec_version_ge_def pad_zero_def)

text \<open>
  C8. \<open>isVersionGreaterOrEqual\<close> compares the dot-separated numeric components from left
  to right, a missing component counting as 0: on version strings whose components are
  decimal numerals (of at most 15 digits, which a double holds exactly) its result is the
  lexicographic comparison of the two component lists, the shorter one filled with zeros.
  In particular \<open>20.1.0\<close> is at least \<open>19.9.0\<close>, \<open>19.8.9\<close> is not, and \<open>20\<close> is at least
  \<open>20.0.0\<close>.
\<close>

theorem isVersionGreaterOrEqual_components:
  "(list_all decimal_numeral (split_dot current) \<and> list_all decimal_numeral (split_dot required) \<longrightarrow>
      isVersionGreaterOrEqual current required =
        spec_version_ge (map (radix_value 10) (split_dot current))
                        (map (radix_value 10) (split_dot required)))
   \<and> isVersionGreaterOrEqual ''20.1.0'' ''19.9.0''
   \<and> \<not> isVersionGreaterOrEqual ''19.8.9'' ''19.9.0''
   \<and> isVersionGreaterOrEqual ''20'' ''20.0.0''"
proof (intro conjI impI)
  assume "list_all decimal_numeral (split_dot current) \<and> list_all decimal_numeral (split_dot required)"
  then show "isVersionGreaterOrEqual current required =
        spec_version_ge (map (radix_value 10) (split_dot current))
                        (map (radix_value 10) (split_dot required))"
    by (simp add: isVersionGreaterOrEqual_numerals)
next
  show "isVersionGreaterOrEqual ''20.1.0'' ''19.9.0''"
    by (simp only: isVersionGreaterOrEqual_numerals numerals_eval spec_eval)
next
  show "\<not> isVersionGreaterOrEqual ''19.8.9'' ''19.9.0''"
    by (simp only: isVersionGreaterOrEqual_numerals numerals_eval spec_eval not_False_eq_True)
next
  show "isVersionGreaterOrEqual ''20'' ''20.0.0''"
    by (simp only: isVersionGreaterOrEqual_numerals numerals_eval spec_eval)
qed

theorem isVersionGreaterOrEqual_components_witness:
  "list_all decimal_numeral (split_dot ''20'') \<and> list_all decimal_numeral (split_dot ''20.0.0'')
   \<and> isVersionGreaterOrEqual ''20'' ''20.0.0'' = spec_version_ge [20] [20, 0, 0]
   \<and> spec_version_ge [20] [20, 0, 0]"
  using isVersionGreaterOrEqual_components [of "''20''" "''20.0.0''"]
  by (simp only: numerals_eval spec_eval simp_thms)

lemma Number_abc: "Number ''abc'' = NaN"
  by (simp add: Number_def trim_ws_def is_ws_def nondecimal_literal_def unsigned_decimal_def
      is_digit_def digit_value_def)

lemma nan_parts_zero:
  "list_all (\<lambda>c. Number c = NaN) xs \<Longrightarrow> or_zero (nth_opt (map Number xs) j) = Fin 0"
  by (simp add: nth_opt_def or_zero_def list_all_length)

lemma zero_parts_zero: "or_zero (nth_opt (map Number (split_dot ''0'')) j) = Fin 0"
  using numerals_eval(6)
  by (simp add: nth_opt_def or_zero_def Number_decimal_numeral numerals_eval(12) [simplified])

lemma nan_version_as_zero:
  assumes "list_all (\<lambda>c. Number c = NaN) (split_dot current)"
  shows "isVersionGreaterOrEqual current required = isVersionGreaterOrEqual ''0'' required"
  unfolding isVersionGreaterOrEqual_def
  by (simp only: version_loop_closed [of _ _ 0] nan_parts_zero [OF assms] zero_parts_zero)

lemma zero_below_required: "\<not> isVersionGreaterOrEqual ''0'' ''19.9.0''"
  by (simp only: isVersionGreaterOrEqual_numerals numerals_eval spec_eval not_False_eq_True)

lemma or_zero_component:
  "i < length cs \<Longrightarrow> or_zero (nth_opt (map Number cs) i) = component_value (cs ! i)"
  by (auto simp add: nth_opt_def or_zero_def component_value_def)

lemma version_loop_components:
  "version_loop (map Number cs) (map Number rs) i =
     components_ge (map component_value (drop i cs)) (map component_value (drop i rs))"
proof (induction "max (length cs) (length rs) - i" arbitrary: i)
  case 0
  then have "\<not> i < max (length (map Number cs)) (length (map Number rs))" by auto
  moreover have "drop i cs = []" "drop i rs = []" using 0 by simp_all
  ultimately show ?case by (subst version_loop.simps) (simp del: length_map)
next
  case (Suc d)
  then have lt: "i < max (length (map Number cs)) (length (map Number rs))" by simp
  have ih: "version_loop (map Number cs) (map Number rs) (Suc i) =
     components_ge (map component_value (drop (Suc i) cs)) (map component_value (drop (Suc i) rs))"
    using Suc by (intro Suc.hyps(1)) simp
  have step: "version_loop (map Number cs) (map Number rs) i =
      (if js_lt (or_zero (nth_opt (map Number rs) i)) (or_zero (nth_opt (map Number cs) i)) then True
       else if js_lt (or_zero (nth_opt (map Number cs) i)) (or_zero (nth_opt (map Number rs) i)) then False
       else components_ge (map component_value (drop (Suc i) cs)) (map component_value (drop (Suc i) rs)))"
    by (subst version_loop.simps) (simp add: lt Let_def ih js_gt_def del: length_map)
  consider (both) "i < length cs" "i < length rs"
    | (cur) "i < length cs" "length rs \<le> i"
    | (req) "length cs \<le> i" "i < length rs"
    using Suc.hyps(2) by linarith
  then show ?case
  proof cases
    case both
    then show ?thesis
      unfolding step
      by (simp add: or_zero_component Cons_nth_drop_Suc [symmetric])
  next
    case cur
    then show ?thesis
      unfolding step
      by (simp add: or_zero_component or_zero_beyond Cons_nth_drop_Suc [symmetric])
  next
    case req
    then show ?thesis
      unfolding step
      by (simp add: or_zero_component or_zero_beyond Cons_nth_drop_Suc [symmetric])
  qed
qed


lemma component_value_numeral:
  "decimal_numeral c \<Longrightarrow> component_value c = Fin (of_int (radix_value 10 c))"
  by (simp add: component_value_def Number_decimal_numeral)

lemma component_value_eval:
  "component_value ''0'' = Fin 0"
  "component_value ''1'' = Fin 1"
  "component_value ''5'' = Fin 5"
  "component_value ''9'' = Fin 9"
  "component_value ''19'' = Fin 19"
  by (simp_all add: component_value_numeral decimal_numeral_def all_digits_def is_digit_def
      radix_value_def digit_value_def)

lemma Number_nan_eval:
  "Number ''x'' = NaN"
  "Number ''9-rc'' = NaN"
  by (simp_all add: Number_def trim_ws_def is_ws_def nondecimal_literal_def unsigned_decimal_def
      exponent_part_def is_digit_def digit_value_def)

text \<open>
  C10, as stated, fails on the code: the component \<open>abc\<close> reads as NaN, yet
  \<^verbatim>\<open>NaN || 0\<close> is 0, which is below 19, so the comparison with \<open>19.9.0\<close> is false and
  \<open>checkNodeVersion\<close> throws for the host version \<open>vabc\<close>.
\<close>

theorem nonnumeric_version_counterexample:
  "Number ''abc'' = NaN \<and> \<not> isVersionGreaterOrEqual ''abc'' ''19.9.0'' \<and>
   checkNodeVersion ''vabc'' =
     Inl (Error ''Node.js version 19.9.0 or higher is required. Current version: abc'')"
proof -
  have nan: "list_all (\<lambda>c. Number c = NaN) (split_dot ''abc'')"
    by (simp add: Number_abc)
  have no: "\<not> isVersionGreaterOrEqual ''abc'' ''19.9.0''"
    using nan_version_as_zero [OF nan] zero_below_required by simp
  then show ?thesis
    by (simp add: Number_abc checkNodeVersion_def slice1_def)
qed

text \<open>
  C10, amended. For every pair of version strings, a component of either string that
  \<open>Number\<close> reads as NaN is replaced by 0, as a missing component is, and compared as the
  number 0; it is not skipped: the result of \<open>isVersionGreaterOrEqual\<close> is the comparison
  from left to right of the two lists of components after that replacement. So a current
  version all of whose components read as NaN compares as the version \<open>0\<close> does against
  every required version; against \<open>19.9.0\<close> the result is false, and \<open>checkNodeVersion\<close>
  throws for such a host version.
\<close>

theorem nonnumeric_components_read_as_zero:
  "isVersionGreaterOrEqual current required =
     components_ge (map component_value (split_dot current))
                   (map component_value (split_dot required))
   \<and> (list_all (\<lambda>c. Number c = NaN) (split_dot current) \<longrightarrow>
        isVersionGreaterOrEqual current required = isVersionGreaterOrEqual ''0'' required
        \<and> \<not> isVersionGreaterOrEqual current ''19.9.0''
        \<and> checkNodeVersion (v # current) =
            Inl (Error (''Node.js version 19.9.0 or higher is required. Current version: '' @ current)))"
proof (intro conjI impI)
  show "isVersionGreaterOrEqual current required =
     components_ge (map component_value (split_dot current))
                   (map component_value (split_dot required))"
    unfolding isVersionGreaterOrEqual_def
    by (simp only: version_loop_components [of _ _ 0] drop_0)
next
  assume nan: "list_all (\<lambda>c. Number c = NaN) (split_dot current)"
  show "isVersionGreaterOrEqual current required = isVersionGreaterOrEqual ''0'' required"
    using nan_version_as_zero [OF nan] .
  show no: "\<not> isVersionGreaterOrEqual current ''19.9.0''"
    using nan_version_as_zero [OF nan] zero_below_required by simp
  then show "checkNodeVersion (v # current) =
         Inl (Error (''Node.js version 19.9.0 or higher is required. Current version: '' @ current))"
    by (simp add: checkNodeVersion_def slice1_def)
qed

theorem nonnumeric_components_read_as_zero_witness:
  "list_all (\<lambda>c. Number c = NaN) (split_dot ''abc.x'')
   \<and> isVersionGreaterOrEqual ''abc.x'' ''0.0.0'' = isVersionGreaterOrEqual ''0'' ''0.0.0''
   \<and> \<not> isVersionGreaterOrEqual ''abc.x'' ''19.9.0''
   \<and> checkNodeVersion ''vabc.x'' =
         Inl (Error ''Node.js version 19.9.0 or higher is required. Current version: abc.x'')
   \<and> isVersionGreaterOrEqual ''1.0'' ''x.5'' = components_ge [Fin 1, Fin 0] [Fin 0, Fin 5]
   \<and> isVersionGreaterOrEqual ''1.0'' ''x.5''
   \<and> isVersionGreaterOrEqual ''19.9-rc.0'' ''19.9.0'' =
       components_ge [Fin 19, Fin 0, Fin 0] [Fin 19, Fin 9, Fin 0]
   \<and> \<not> isVersionGreaterOrEqual ''19.9-rc.0'' ''19.9.0''"
proof -
  have nan: "list_all (\<lambda>c. Number c = NaN) (split_dot ''abc.x'')"
    by (simp add: Number_def trim_ws_def is_ws_def nondecimal_literal_def unsigned_decimal_def
      is_digit_def digit_value_def)
  have x: "component_value ''x'' = Fin 0" "component_value ''9-rc'' = Fin 0"
    by (simp_all add: component_value_def Number_nan_eval)
  have a: "isVersionGreaterOrEqual ''abc.x'' ''0.0.0'' = isVersionGreaterOrEqual ''0'' ''0.0.0''
     \<and> \<not> isVersionGreaterOrEqual ''abc.x'' ''19.9.0''
     \<and> checkNodeVersion ''vabc.x'' =
         Inl (Error ''Node.js version 19.9.0 or higher is required. Current version: abc.x'')"
    using nonnumeric_components_read_as_zero
      [of "''abc.x''" "''0.0.0''" "CHR ''v''", THEN conjunct2, THEN mp, OF nan]
    by simp
  have b: "isVersionGreaterOrEqual ''1.0'' ''x.5'' = components_ge [Fin 1, Fin 0] [Fin 0, Fin 5]"
    using nonnumeric_components_read_as_zero [of "''1.0''" "''x.5''" "CHR ''v''", THEN conjunct1]
    by (simp add: component_value_eval x)
  have c: "isVersionGreaterOrEqual ''19.9-rc.0'' ''19.9.0'' =
       components_ge [Fin 19, Fin 0, Fin 0] [Fin 19, Fin 9, Fin 0]"
    using nonnumeric_components_read_as_zero
      [of "''19.9-rc.0''" "''19.9.0''" "CHR ''v''", THEN conjunct1]
    by (simp add: component_value_eval x)
  have b': "isVersionGreaterOrEqual ''1.0'' ''x.5''" unfolding b by simp
  have c': "\<not> isVersionGreaterOrEqual ''19.9-rc.0'' ''19.9.0''" unfolding c by simp
  show ?thesis
    using nan a b b' c c' by blast
qed

subsection \<open>Strings, executable names and download URLs\<close>

lemma includes_str_iff: "includes_str s t \<longleftrightarrow> (\<exists>p q. s = p @ t @ q)"
proof (induction s)
  case Nil
  then show ?case by auto
next
  case (Cons c cs)
  have "take (length t) (c # cs) = t \<longleftrightarrow> (\<exists>q. c # cs = t @ q)"
    by (metis append_eq_conv_conj append_take_drop_id)
  moreover have "(\<exists>p q. c # cs = p @ t @ q) \<longleftrightarrow> (\<exists>q. c # cs = t @ q) \<or> (\<exists>p q. cs = p @ t @ q)"
  proof
    assume "\<exists>p q. c # cs = p @ t @ q"
    then obtain p q where pq: "c # cs = p @ t @ q" by blast
    show "(\<exists>q. c # cs = t @ q) \<or> (\<exists>p q. cs = p @ t @ q)"
    proof (cases p)
      case Nil
      with pq show ?thesis by auto
    next
      case (Cons a p')
      with pq have "cs = p' @ t @ q" by simp
      then show ?thesis by blast
    qed
  next
    assume "(\<exists>q. c # cs = t @ q) \<or> (\<exists>p q. cs = p @ t @ q)"
    then show "\<exists>p q. c # cs = p @ t @ q"
    proof
      assume "\<exists>q. c # cs = t @ q"
      then obtain q where "c # cs = [] @ t @ q" by auto
      then show ?thesis by blast
    next
      assume "\<exists>p q. cs = p @ t @ q"
      then obtain p q where "c # cs = (c # p) @ t @ q" by auto
      then show ?thesis by blast
    qed
  qed
  ultimately show ?case using Cons.IH by simp
qed

lemma includes_str_sublist: "includes_str s t = sublist t s"
  by (auto simp: includes_str_iff sublist_def)

lemma includes_strI: "includes_str (p @ t @ q) t"
  by (auto simp: includes_str_iff)

lemma endsWith_iff: "endsWith s t \<longleftrightarrow> (\<exists>p. s = p @ t)"
  by (auto simp: endsWith_def) (metis append_take_drop_id)

lemma endsWith_suffix: "endsWith s t = suffix t s"
  by (auto simp: endsWith_iff suffix_def)

lemma endsWithI: "endsWith (p @ t) t"
  by (auto simp: endsWith_iff)

text \<open>
  C9. For every output base name, \<open>getExecutableName\<close> for \<open>win32\<close> appends \<open>.exe\<close>
  exactly when the base name does not already end in \<open>.exe\<close>, so that the result ends in
  \<open>.exe\<close> and a second application changes nothing; for \<open>linux\<close> and \<open>darwin\<close> the base
  name is returned unchanged.
\<close>

theorem getExecutableName_exe_once:
  "getExecutableName this ''win32'' =
     (if endsWith (output_name (options this)) ''.exe'' then output_name (options this)
      else output_name (options this) @ ''.exe'')
   \<and> endsWith (getExecutableName this ''win32'') ''.exe''
   \<and> getExecutableName
         (this\<lparr>options := (options this)\<lparr>output_name := getExecutableName this ''win32''\<rparr>\<rparr>) ''win32'' =
       getExecutableName this ''win32''
   \<and> getExecutableName this ''linux'' = output_name (options this)
   \<and> getExecutableName this ''darwin'' = output_name (options this)"
proof -
  have e: "endsWith (getExecutableName this ''win32'') ''.exe''"
    using endsWithI [of "output_name (options this)" "''.exe''"]
    by (cases "endsWith (output_name (options this)) ''.exe''")
      (simp_all add: getExecutableName_def Let_def)
  then have "getExecutableName
         (this\<lparr>options := (options this)\<lparr>output_name := getExecutableName this ''win32''\<rparr>\<rparr>) ''win32'' =
       getExecutableName this ''win32''"
    by (simp add: getExecutableName_def
        [of "this\<lparr>options := (options this)\<lparr>output_name := getExecutableName this ''win32''\<rparr>\<rparr>"] Let_def)
  with e show ?thesis by (simp add: getExecutableName_def Let_def)
qed

text \<open>
  C7, as stated, fails on the code for \<open>win32\<close> at the version \<open>20.18.0\<close>: the URL
  returned there names the platform \<open>win\<close>, and the string \<open>win32\<close> does not occur in
  that URL.
\<close>

theorem getNodeDownloadUrl_win32_counterexample:
  "getNodeDownloadUrl ''20.18.0'' ''win32'' =
     Inr ''https://nodejs.org/dist/v20.18.0/node-v20.18.0-win-x64.zip''
   \<and> \<not> includes_str ''https://nodejs.org/dist/v20.18.0/node-v20.18.0-win-x64.zip'' ''win32''"
  by (simp add: getNodeDownloadUrl_def)

lemma url_win32:
  "getNodeDownloadUrl version ''win32'' =
     Inr (''https://nodejs.org/dist/v'' @ version @ ''/node-v'' @ version @ ''-win-x64.zip'')"
  by (simp add: getNodeDownloadUrl_def)

lemma url_unix:
  "platform = ''darwin'' \<or> platform = ''linux'' \<Longrightarrow>
   getNodeDownloadUrl version platform =
     Inr (''https://nodejs.org/dist/v'' @ version @ ''/node-v'' @ version @ ''-'' @ platform @ ''-x64.tar.gz'')"
  by (auto simp add: getNodeDownloadUrl_def)

lemma url_other:
  "platform \<notin> {''linux'', ''darwin'', ''win32''} \<Longrightarrow>
   getNodeDownloadUrl version platform = Inl (Error (''Unsupported platform: '' @ platform))"
  by (simp add: getNodeDownloadUrl_def)

lemma url_parts:
  fixes a :: string
  shows "includes_str (a @ ''/v'' @ v @ ''/node-v'' @ v @ ''-'' @ p @ ''-x64'' @ e)
           (''/v'' @ v @ ''/node-v'' @ v @ ''-'')"
    and "includes_str (a @ ''/v'' @ v @ ''/node-v'' @ v @ ''-'' @ p @ ''-x64'' @ e) v"
    and "includes_str (a @ ''/v'' @ v @ ''/node-v'' @ v @ ''-'' @ p @ ''-x64'' @ e) (''-'' @ p @ ''-x64'')"
    and "includes_str (a @ ''/v'' @ v @ ''/node-v'' @ v @ ''-'' @ p @ ''-x64'' @ e) p"
    and "endsWith (a @ ''/v'' @ v @ ''/node-v'' @ v @ ''-'' @ p @ ''-x64'' @ e) e"
proof -
  show "includes_str (a @ ''/v'' @ v @ ''/node-v'' @ v @ ''-'' @ p @ ''-x64'' @ e)
           (''/v'' @ v @ ''/node-v'' @ v @ ''-'')"
    using includes_strI [of a "''/v'' @ v @ ''/node-v'' @ v @ ''-''" "p @ ''-x64'' @ e"]
    by (simp only: append_assoc)
  show "includes_str (a @ ''/v'' @ v @ ''/node-v'' @ v @ ''-'' @ p @ ''-x64'' @ e) v"
    using includes_strI [of "a @ ''/v''" v "''/node-v'' @ v @ ''-'' @ p @ ''-x64'' @ e"]
    by (simp only: append_assoc)
  show "includes_str (a @ ''/v'' @ v @ ''/node-v'' @ v @ ''-'' @ p @ ''-x64'' @ e) (''-'' @ p @ ''-x64'')"
    using includes_strI [of "a @ ''/v'' @ v @ ''/node-v'' @ v" "''-'' @ p @ ''-x64''" e]
    by (simp only: append_assoc)
  show "includes_str (a @ ''/v'' @ v @ ''/node-v'' @ v @ ''-'' @ p @ ''-x64'' @ e) p"
    using includes_strI [of "a @ ''/v'' @ v @ ''/node-v'' @ v @ ''-''" p "''-x64'' @ e"]
    by (simp only: append_assoc)
  show "endsWith (a @ ''/v'' @ v @ ''/node-v'' @ v @ ''-'' @ p @ ''-x64'' @ e) e"
    using endsWithI [of "a @ ''/v'' @ v @ ''/node-v'' @ v @ ''-'' @ p @ ''-x64''" e]
    by (simp only: append_assoc)
qed

text \<open>
  C7, amended. For every supported version string (the statement below holds of every
  string, so of the supported ones) and every platform among \<open>linux\<close>, \<open>darwin\<close> and
  \<open>win32\<close>, \<open>getNodeDownloadUrl\<close> returns a URL that contains the exact version token
  and the platform's token of the distribution (\<open>linux\<close>, \<open>darwin\<close>, and \<open>win\<close> for
  \<open>win32\<close>), ending in \<open>.zip\<close> for \<open>win32\<close> and in \<open>.tar.gz\<close> otherwise; for every
  platform outside that set it throws the error \<open>Unsupported platform\<close>.
\<close>

theorem getNodeDownloadUrl_tokens:
  "(case getNodeDownloadUrl version platform of
      Inr url \<Rightarrow>
        platform \<in> {''linux'', ''darwin'', ''win32''}
        \<and> includes_str url (''/v'' @ version @ ''/node-v'' @ version @ ''-'')
        \<and> includes_str url version
        \<and> includes_str url (''-'' @ (if platform = ''win32'' then ''win'' else platform) @ ''-x64'')
        \<and> includes_str url (if platform = ''win32'' then ''win'' else platform)
        \<and> endsWith url (if platform = ''win32'' then ''.zip'' else ''.tar.gz'')
    | Inl e \<Rightarrow>
        platform \<notin> {''linux'', ''darwin'', ''win32''}
        \<and> e = Error (''Unsupported platform: '' @ platform))"
proof -
  note parts = url_parts [of "''https://nodejs.org/dist''" version]
  consider "platform = ''win32''" | "platform = ''darwin'' \<or> platform = ''linux''"
    | "platform \<notin> {''linux'', ''darwin'', ''win32''}" by auto
  then show ?thesis
  proof cases
    case 1
    have eq: "''https://nodejs.org/dist/v'' @ version @ ''/node-v'' @ version @ ''-win-x64.zip'' =
          ''https://nodejs.org/dist'' @ ''/v'' @ version @ ''/node-v'' @ version @ ''-'' @ ''win'' @ ''-x64'' @ ''.zip''"
      by simp
    show ?thesis
      unfolding 1 url_win32 eq sum.case
      using parts [of "''win''" "''.zip''"] by simp
  next
    case 2
    have eq: "''https://nodejs.org/dist/v'' @ version @ ''/node-v'' @ version @ ''-'' @ platform @ ''-x64.tar.gz'' =
          ''https://nodejs.org/dist'' @ ''/v'' @ version @ ''/node-v'' @ version @ ''-'' @ platform @ ''-x64'' @ ''.tar.gz''"
      by simp
    have nw: "platform \<noteq> ''win32''" using 2 by auto
    show ?thesis
      unfolding url_unix [OF 2] eq sum.case
      using parts [of platform "''.tar.gz''"] 2 nw by (simp only: if_False simp_thms) auto
  next
    case 3
    then show ?thesis by (simp add: url_other)
  qed
qed

subsection \<open>Verification of the Windows executable, and the configuration\<close>

lemma repl_message: "includes_str ''Windows executable is still in REPL mode - blob injection failed'' ''REPL mode''"
  by simp

text \<open>
  C3, amended. \<open>verifyWindowsExecutable\<close> runs the built executable once with
  \<^verbatim>\<open>--help\<close> under a timeout of 5000 ms. It throws exactly when the output contains
  \<^verbatim>\<open>Welcome to Node.js\<close> or \<^verbatim>\<open>Type ".help"\<close>, or when the run itself fails with a message
  that contains \<^verbatim>\<open>REPL mode\<close>; every other failure of the run, a timeout among them, is
  swallowed and the verification succeeds.
\<close>

theorem verifyWindowsExecutable_outcome:
  "verifyWindowsExecutable env executableName w =
     (let command = dquote (path_resolve env executableName) @ '' --help'';
          w' = record_event (Exec command (Some 5000))
                 (w\<lparr>disk := snd (exec_outcome env command (Some 5000) w)\<rparr>)
      in (case fst (exec_outcome env command (Some 5000) w) of
            Inr result \<Rightarrow>
              if includes_str result ''Welcome to Node.js''
                 \<or> includes_str result (''Type '' @ dquote ''.help'')
              then Inl (Error ''Windows executable is still in REPL mode - blob injection failed'')
              else Inr ()
          | Inl m \<Rightarrow> if includes_str m ''REPL mode'' then Inl (Error m) else Inr (), w'))"
  using repl_message
  by (cases "exec_outcome env (dquote (path_resolve env executableName) @ '' --help'') (Some 5000) w")
     (auto simp: verifyWindowsExecutable_def try_catch_def io_bind_def execSync_def io_throw_def
        io_return_def Let_def split: sum.splits simp del: includes_str.simps)

text \<open>
  C3, as stated, fails on the code: when the run exceeds its timeout, \<^verbatim>\<open>execSync\<close>
  throws, the \<^verbatim>\<open>catch\<close> block finds no \<^verbatim>\<open>REPL mode\<close> in the message and drops the
  error, and the verification returns normally.
\<close>

theorem verifyWindowsExecutable_timeout_counterexample:
  "fst (exec_outcome timeout_env (dquote (path_resolve timeout_env ''app.exe'') @ '' --help'')
          (Some 5000) sample_world) = Inl ''spawnSync /bin/sh ETIMEDOUT''
   \<and> fst (verifyWindowsExecutable timeout_env ''app.exe'' sample_world) = Inr ()"
  by (simp add: verifyWindowsExecutable_def try_catch_def io_bind_def execSync_def io_throw_def
        io_return_def timeout_env_def sample_env_def)

text \<open>
  C6. The configuration that \<open>createSeaConfig\<close> serializes (the one write it makes, to
  the configuration path, which it returns when the write succeeds) has \<open>useSnapshot\<close> and
  \<open>useCodeCache\<close> false whenever the target platform differs from the host platform,
  whatever the options say, carries the values of the options when the target is the host,
  and has an \<open>assets\<close> key if and only if the asset map is not empty.
\<close>

theorem createSeaConfig_config:
  "\<exists>config.
     trace (snd (createSeaConfig env this platform w)) =
       trace w @ [Fs (WriteFileSync
                        (path_join env [tempBuildDir env this,
                                        ''sea-config-'' @ platform @ ''-'' @ buildId this @ ''.json''])
                        (Json config))]
     \<and> (case fst (createSeaConfig env this platform w) of
           Inl e \<Rightarrow> disk (snd (createSeaConfig env this platform w)) = disk w
         | Inr configPath \<Rightarrow>
             configPath = path_join env [tempBuildDir env this,
                                         ''sea-config-'' @ platform @ ''-'' @ buildId this @ ''.json'']
             \<and> (\<exists>m. disk (snd (createSeaConfig env this platform w)) configPath =
                       Some (Regular (Json config), m)))
     \<and> config_useSnapshot config =
         (if platform = process_platform env then useSnapshot (options this) else False)
     \<and> config_useCodeCache config =
         (if platform = process_platform env then useCodeCache (options this) else False)
     \<and> config_assets config =
         (if assets (options this) = [] then None else Some (assets (options this)))
     \<and> config_main config = main (options this)
     \<and> config_output config = blobPath env this platform
     \<and> config_disableExperimentalSEAWarning config = disableExperimentalSEAWarning (options this)"
  by (auto simp: createSeaConfig_def Let_def io_bind_def io_return_def fs_def fs_enoent_def
      fs_effect_def record_event_def blobPath_def split: option.splits)

subsection \<open>The version resolver\<close>

lemma includes_drop: "includes_str (drop n s) t \<Longrightarrow> includes_str s t"
  by (auto simp: includes_str_iff simp del: includes_str.simps) (metis append_assoc append_take_drop_id)

lemma valid_version_passes:
  assumes "valid_version env v = Inr True"
  shows "\<exists>s. entry_version v = Some s \<and> passes_filter env s"
  using assms
  by (auto simp: valid_version_def passes_filter_def in_version_range_def Let_def
      split: option.splits sum.splits bool.splits if_splits simp del: includes_str.simps)

lemma filter_versions_pass:
  "filter_versions env vs = Inr valid \<Longrightarrow> x \<in> set valid \<Longrightarrow> passes_filter env (fst x)"
proof (induction vs arbitrary: valid)
  case Nil
  then show ?case by simp
next
  case (Cons v vs)
  from Cons.prems(1) obtain keep rest where
    k: "valid_version env v = Inr keep" and r: "filter_versions env vs = Inr rest"
    and val: "valid = (if keep then (case entry_version v of None \<Rightarrow> [] | Some s \<Rightarrow> [(s, entry_lts_false v)]) @ rest else rest)"
    by (auto split: sum.splits)
  show ?case
  proof (cases "x \<in> set rest")
    case True
    then show ?thesis using Cons.IH [OF r] by simp
  next
    case False
    with val Cons.prems(2) have keep and "\<exists>s. entry_version v = Some s \<and> fst x = s"
      by (auto split: if_splits option.splits)
    then show ?thesis using valid_version_passes [of env v] k by auto
  qed
qed

lemma find_preferred_mem:
  "find_preferred ps valid = Some version \<Longrightarrow> \<exists>x \<in> set valid. version = slice1 (fst x)"
  by (induction ps) (auto split: option.splits simp: find_Some_iff)

lemma find_lts_mem:
  "find_lts env valid = Inr (Some x) \<Longrightarrow> x \<in> set valid"
  by (induction valid) (auto split: if_splits sum.splits)

lemma passes_filter_result:
  assumes "passes_filter env s"
  shows "in_version_range env (slice1 s)" "\<not> includes_str (slice1 s) ''rc''"
    "\<not> includes_str (slice1 s) ''beta''"
  using assms includes_drop [of 1 s] by (auto simp: passes_filter_def slice1_def simp del: includes_str.simps)

lemma fallback_clean: "\<not> includes_str ''20.18.0'' ''rc''" "\<not> includes_str ''20.18.0'' ''beta''"
  by simp_all

lemma chosen_fallback: "chosen env ''20.18.0''"
  by (simp add: chosen_def)

lemma chosen_pass: "passes_filter env s \<Longrightarrow> chosen env (slice1 s)"
  using passes_filter_result [of env s] by (simp add: chosen_def del: includes_str.simps)

lemma resolver_cases:
  "\<exists>version w'. getRecommendedNodeVersion env w = (Inr version, w')
     \<and> chosen env version \<and> (resolution_fails env w \<longrightarrow> version = ''20.18.0'')"
proof (cases "http_index env w")
  case (Inl m)
  then show ?thesis
    by (simp add: getRecommendedNodeVersion_def try_catch_def io_bind_def axios_get_index_def
        console_def io_return_def chosen_fallback)
next
  case (Inr data)
  note idx = Inr
  show ?thesis
  proof (cases data)
    case NotArray
    with idx show ?thesis
      by (simp add: getRecommendedNodeVersion_def try_catch_def io_bind_def axios_get_index_def
          console_def io_return_def io_throw_def chosen_fallback)
  next
    case (Entries vs)
    show ?thesis
    proof (cases "filter_versions env vs")
      case (Inl e)
      with idx Entries show ?thesis
        by (simp add: getRecommendedNodeVersion_def try_catch_def io_bind_def axios_get_index_def
            console_def io_return_def io_throw_def chosen_fallback)
    next
      case (Inr valid)
      note flt = Inr
      show ?thesis
      proof (cases valid)
        case Nil
        with idx Entries flt show ?thesis
          by (simp add: getRecommendedNodeVersion_def try_catch_def io_bind_def axios_get_index_def
              console_def io_return_def io_throw_def chosen_fallback)
      next
        case (Cons first others)
        show ?thesis
        proof (cases "find_preferred [''20.18.0'', ''20.17.0'', ''20.16.0'', ''20.15.1''] valid")
          case (Some version)
          then obtain x where "x \<in> set valid" "version = slice1 (fst x)"
            using find_preferred_mem by blast
          then have "chosen env version"
            using filter_versions_pass [OF flt] chosen_pass by blast
          with idx Entries flt Cons Some show ?thesis
            by (simp add: getRecommendedNodeVersion_def try_catch_def io_bind_def axios_get_index_def
                console_def io_return_def io_throw_def resolution_fails_def)
        next
          case None
          show ?thesis
          proof (cases "find_lts env valid")
            case (Inl e)
            with idx Entries flt Cons None show ?thesis
              by (simp add: getRecommendedNodeVersion_def try_catch_def io_bind_def axios_get_index_def
                  console_def io_return_def io_throw_def chosen_fallback)
          next
            case (Inr found)
            have "chosen env (slice1 (fst first))"
              using filter_versions_pass [OF flt, of first] chosen_pass Cons by simp
            moreover have "chosen env (slice1 (fst x))" if "found = Some x" for x
              using that find_lts_mem [of env valid x] Inr filter_versions_pass [OF flt, of x] chosen_pass
              by simp
            ultimately show ?thesis
              using idx Entries flt Cons None Inr
              by (cases found)
                (simp_all add: getRecommendedNodeVersion_def try_catch_def io_bind_def
                  axios_get_index_def console_def io_return_def io_throw_def resolution_fails_def)
          qed
        qed
      qed
    qed
  qed
qed

text \<open>
  C4. Whatever the request for the version index gives, \<open>getRecommendedNodeVersion\<close>
  does not throw: it returns a version string that contains neither \<open>rc\<close> nor \<open>beta\<close>
  and that is the fallback \<open>20.18.0\<close> or a version the \<^verbatim>\<open>semver\<close> library places within
  [19.9.0, 22.99.99] (so, the fallback being within the range, always a version within
  it); and on every failure (of the request, of reading the body, of the filter, an empty
  filtered set) it returns the fallback.
\<close>

theorem getRecommendedNodeVersion_in_range:
  "\<exists>version w'. getRecommendedNodeVersion env w = (Inr version, w')
     \<and> \<not> includes_str version ''rc'' \<and> \<not> includes_str version ''beta''
     \<and> (version = ''20.18.0'' \<or> in_version_range env version)
     \<and> (in_version_range env ''20.18.0'' \<longrightarrow> in_version_range env version)
     \<and> (resolution_fails env w \<longrightarrow> version = ''20.18.0'')"
  using resolver_cases [of env w] by (auto simp: chosen_def simp del: includes_str.simps)

lemma sample_resolution:
  "getRecommendedNodeVersion sample_env sample_world =
     (Inr ''20.11.0'', record_event (HttpGet ''https://nodejs.org/dist/index.json'') sample_world)"
  by (simp add: getRecommendedNodeVersion_def try_catch_def io_bind_def axios_get_index_def
      io_return_def io_throw_def sample_env_def sample_index_def valid_version_def slice1_def)

lemma offline_resolution:
  "fst (getRecommendedNodeVersion offline_env sample_world) = Inr ''20.18.0''"
  by (simp add: getRecommendedNodeVersion_def try_catch_def io_bind_def axios_get_index_def
      io_return_def io_throw_def offline_env_def sample_env_def console_def)

theorem getRecommendedNodeVersion_in_range_witness:
  "in_version_range sample_env ''20.18.0''
   \<and> fst (getRecommendedNodeVersion sample_env sample_world) = Inr ''20.11.0''
   \<and> in_version_range sample_env ''20.11.0''
   \<and> resolution_fails offline_env sample_world
   \<and> fst (getRecommendedNodeVersion offline_env sample_world) = Inr ''20.18.0''"
proof -
  have r: "in_version_range sample_env ''20.18.0''" "in_version_range sample_env ''20.11.0''"
    by (simp_all add: in_version_range_def sample_env_def)
  have f: "resolution_fails offline_env sample_world"
    by (simp add: resolution_fails_def offline_env_def sample_env_def)
  show ?thesis
    using getRecommendedNodeVersion_in_range [of sample_env sample_world]
      getRecommendedNodeVersion_in_range [of offline_env sample_world]
    by (simp add: sample_resolution offline_resolution r f)
qed

subsection \<open>The build loop\<close>

lemma io_bind_InrE:
  assumes "io_bind m f w = (Inr y, w')"
  obtains x w1 where "m w = (Inr x, w1)" "f x w1 = (Inr y, w')"
  using assms by (auto simp: io_bind_def split: prod.splits sum.splits)











lemma fs_cases:
  obtains m where "fs env call w = (Inl (Error m), record_event (Fs call) w)"
  | "fs env call w = (Inr (), record_event (Fs call) (w\<lparr>disk := fs_effect env call (disk w)\<rparr>))"
proof (cases "fs_enoent call (disk w)")
  case (Some what)
  then have "fs env call w =
      (Inl (Error (''ENOENT: no such file or directory, '' @ what)), record_event (Fs call) w)"
    by (simp add: fs_def)
  then show ?thesis using that(1) by blast
next
  case None
  show ?thesis
  proof (cases "fs_fault env call w")
    case (Some m)
    with None have "fs env call w = (Inl (Error m), record_event (Fs call) w)"
      by (simp add: fs_def)
    then show ?thesis using that(1) by blast
  next
    case None
    with \<open>fs_enoent call (disk w) = None\<close> show ?thesis
      using that(2) by (simp add: fs_def)
  qed
qed







subsection \<open>Cleaning up\<close>















subsection \<open>The cache of downloaded binaries\<close>

lemma downloads_record [simp]:
  "downloads (record_event ev w) = downloads w @ (if is_download ev then [ev] else [])"
  by (simp add: downloads_def record_event_def)

lemma disk_record [simp]: "disk (record_event ev w) = disk w"
  by (simp add: record_event_def)

lemma trace_record [simp]: "trace (record_event ev w) = trace w @ [ev]"
  by (simp add: record_event_def)

lemma downloads_disk_update [simp]: "downloads (w\<lparr>disk := d\<rparr>) = downloads w"
  by (simp add: downloads_def)

lemma is_download_simps [simp]:
  "is_download (Download url p)" "\<not> is_download (Fs c)" "\<not> is_download (Console l t)"
  "\<not> is_download (HttpGet u)" "\<not> is_download (Exec cmd t')" "\<not> is_download (Unzip a b)"
  "\<not> is_download (TarExtract a b m)"
  by (simp_all add: is_download_def)

lemma resolver_world:
  "\<exists>version w0. getRecommendedNodeVersion env w = (Inr version, w0)
      \<and> disk w0 = disk w \<and> downloads w0 = downloads w"
proof -
  define body where "body = io_bind (axios_get_index env)
          (\<lambda>versions.
             case (case versions of
                     NotArray \<Rightarrow> Inl (Error ''TypeError: versions.filter is not a function'')
                   | Entries vs \<Rightarrow> filter_versions env vs) of
               Inl e \<Rightarrow> io_throw e
             | Inr validVersions \<Rightarrow>
                 (case validVersions of
                    [] \<Rightarrow> io_throw (Error ''No valid Node.js versions found (minimum: 19.9.0)'')
                  | first # others \<Rightarrow>
                      (case find_preferred [''20.18.0'', ''20.17.0'', ''20.16.0'', ''20.15.1'']
                              validVersions of
                         Some version \<Rightarrow> io_return version
                       | None \<Rightarrow>
                           (case find_lts env validVersions of
                              Inl e \<Rightarrow> io_throw e
                            | Inr (Some latestLTS) \<Rightarrow> io_return (slice1 (fst latestLTS))
                            | Inr None \<Rightarrow> io_return (slice1 (fst first))))))"
  have w1: "snd (body w) = record_event (HttpGet ''https://nodejs.org/dist/index.json'') w"
    unfolding body_def
    by (auto simp: io_bind_def axios_get_index_def io_throw_def io_return_def
        split: sum.splits index_data.splits list.splits option.splits)
  have eq: "getRecommendedNodeVersion env = try_catch body
       (\<lambda>error. io_bind
                   (console ''warn'' ''Failed to fetch latest Node.js version, using fallback'')
                   (\<lambda>u. io_return ''20.18.0''))"
    unfolding body_def getRecommendedNodeVersion_def ..
  obtain r w' where b: "body w = (r, w')" by (cases "body w")
  with w1 have w': "w' = record_event (HttpGet ''https://nodejs.org/dist/index.json'') w" by simp
  show ?thesis
    using b w'
    by (cases r) (simp_all add: eq try_catch_def io_bind_def console_def io_return_def)
qed

lemma fs_InrD:
  assumes "fs env call w = (Inr u, w')"
  shows "w' = record_event (Fs call) (w\<lparr>disk := fs_effect env call (disk w)\<rparr>)"
  using assms by (rule_tac fs_cases [of env call w]) auto

lemma fs_downloads: "fs env call w = (r, w') \<Longrightarrow> downloads w' = downloads w"
  by (rule fs_cases [of env call w]) auto

lemma fs_trace: "fs env call w = (r, w') \<Longrightarrow> trace w' = trace w @ [Fs call]"
  by (rule fs_cases [of env call w]) auto

lemma ensure_dir_world:
  assumes "ensure_dir env d w = (r, w')"
  shows "downloads w' = downloads w"
    and "\<And>p. p \<noteq> d \<Longrightarrow> disk w' p = disk w p"
    and "\<And>p. disk w p \<noteq> None \<Longrightarrow> disk w' p = disk w p"
    and "set (trace w) \<subseteq> set (trace w')"
proof -
  have "downloads w' = downloads w \<and> (\<forall>p. p \<noteq> d \<longrightarrow> disk w' p = disk w p)
      \<and> (\<forall>p. disk w p \<noteq> None \<longrightarrow> disk w' p = disk w p) \<and> set (trace w) \<subseteq> set (trace w')"
  proof (cases "existsSync d w")
    case True
    with assms show ?thesis by (simp add: ensure_dir_def io_bind_def io_get_def io_return_def)
  next
    case False
    with assms have f: "fs env (MkdirSync d) w = (r, w')"
      by (simp add: ensure_dir_def io_bind_def io_get_def)
    from False have dn: "disk w d = None" by (cases "disk w d") (auto simp: existsSync_def)
    show ?thesis
      using f
      by (rule_tac fs_cases [of env "MkdirSync d" w])
         (auto simp: fs_effect_def dn)
  qed
  then show "downloads w' = downloads w"
    and "\<And>p. p \<noteq> d \<Longrightarrow> disk w' p = disk w p"
    and "\<And>p. disk w p \<noteq> None \<Longrightarrow> disk w' p = disk w p"
    and "set (trace w) \<subseteq> set (trace w')" by blast+
qed

lemma ensure_dir_present:
  "existsSync d w \<Longrightarrow> ensure_dir env d w = (Inr (), w)"
  by (simp add: ensure_dir_def io_bind_def io_get_def io_return_def)

lemma downloadFile_InrD:
  assumes "downloadFile env url p w = (Inr u, w')"
  shows "downloads w' = downloads w @ [Download url p]"
  using assms
  by (auto simp: downloadFile_def Let_def downloads_def record_event_def
      split: download_outcome.splits option.splits)

lemma extractZip_InrD:
  assumes "extractZip env a dir version platform w = (Inr u, w')"
  shows "trace w' = trace w @ [Unzip a dir]"
  using assms by (auto simp: extractZip_def split: prod.splits sum.splits)

lemma tar_extract_InrD:
  assumes "tar_extract env a dir member w = (Inr u, w')"
  shows "trace w' = trace w @ [TarExtract a dir member]"
  using assms by (auto simp: tar_extract_def split: prod.splits sum.splits)

lemma move_up_world:
  assumes "io_bind (io_get (existsSync e))
             (\<lambda>extracted.
                if extracted then
                  io_bind (fs env (RenameSync e f))
                    (\<lambda>u. io_bind (io_get (existsSync d))
                            (\<lambda>folder. if folder then fs env (RmSync d) else io_return ()))
                else io_return ()) w1 = (r, w')"
  shows "downloads w' = downloads w1 \<and> set (trace w1) \<subseteq> set (trace w')"
proof (cases "existsSync e w1")
  case False
  with assms show ?thesis by (simp add: io_bind_def io_get_def io_return_def)
next
  case True
  obtain r2 w2 where rn: "fs env (RenameSync e f) w1 = (r2, w2)"
    by (cases "fs env (RenameSync e f) w1")
  note d2 = fs_downloads [OF rn] and t2 = fs_trace [OF rn]
  show ?thesis
  proof (cases r2)
    case (Inl err)
    with assms True rn have "w' = w2" by (simp add: io_bind_def io_get_def)
    with d2 t2 show ?thesis by auto
  next
    case (Inr u2)
    show ?thesis
    proof (cases "existsSync d w2")
      case False
      with assms True rn Inr have "w' = w2" by (simp add: io_bind_def io_get_def io_return_def)
      with d2 t2 show ?thesis by auto
    next
      case ex: True
      with assms True rn Inr have rm: "fs env (RmSync d) w2 = (r, w')"
        by (simp add: io_bind_def io_get_def)
      from fs_downloads [OF rm] fs_trace [OF rm] d2 t2 show ?thesis by auto
    qed
  qed
qed

lemma extractTarGz_InrD:
  assumes "extractTarGz env a dir version platform w = (Inr u, w')"
  shows "downloads w' = downloads w
     \<and> TarExtract a dir (''node-v'' @ version @ ''-'' @ platform @ ''-x64'' @ ''/bin/node'') \<in> set (trace w')"
proof -
  define member where "member = (''node-v'' @ version @ ''-'' @ platform @ ''-x64'') @ ''/bin/node''"
  from assms obtain u1 w1 where t: "tar_extract env a dir member w = (Inr u1, w1)"
    and rest: "io_bind (io_get (existsSync (path_join env [dir, member])))
             (\<lambda>extracted.
                if extracted then
                  io_bind (fs env (RenameSync (path_join env [dir, member]) (path_join env [dir, ''node''])))
                    (\<lambda>u. io_bind (io_get (existsSync (path_join env [dir, ''node-v'' @ version @ ''-'' @ platform @ ''-x64''])))
                            (\<lambda>folder. if folder then fs env (RmSync (path_join env [dir, ''node-v'' @ version @ ''-'' @ platform @ ''-x64'']))
                                       else io_return ()))
                else io_return ()) w1 = (Inr u, w')"
    unfolding extractTarGz_def Let_def member_def [symmetric]
    by (rule io_bind_InrE)
  from tar_extract_InrD [OF t] move_up_world [OF rest] show ?thesis
    by (auto simp: downloads_def member_def)
qed

lemma extractNodeBinary_InrD:
  assumes "extractNodeBinary env (archivePath env platform version)
             (versionDir env platform version) platform version w = (Inr u, w')"
  shows "downloads w' = downloads w" and "extraction_event env platform version \<in> set (trace w')"
proof -
  have "downloads w' = downloads w \<and> extraction_event env platform version \<in> set (trace w')"
  proof (cases "platform = ''win32''")
    case True
    with assms have "extractZip env (archivePath env platform version)
             (versionDir env platform version) version platform w = (Inr u, w')"
      by (simp add: extractNodeBinary_def)
    from extractZip_InrD [OF this] True show ?thesis
      by (simp add: downloads_def extraction_event_def)
  next
    case False
    with assms have "extractTarGz env (archivePath env platform version)
             (versionDir env platform version) version platform w = (Inr u, w')"
      by (simp add: extractNodeBinary_def)
    from extractTarGz_InrD [OF this] False show ?thesis
      by (simp add: extraction_event_def)
  qed
  then show "downloads w' = downloads w" and "extraction_event env platform version \<in> set (trace w')"
    by blast+
qed

lemma check_tail_InrE:
  assumes "io_bind (io_get (existsSync t))
             (\<lambda>extracted. if \<not> extracted then io_throw e
                           else io_bind c (\<lambda>u. io_return t)) w4 = (Inr p, w')"
  obtains u5 where "existsSync t w4" "c w4 = (Inr u5, w')" "p = t"
  using assms
  by (auto simp: io_bind_def io_get_def io_throw_def io_return_def
      split: if_splits prod.splits sum.splits)

lemma miss_steps:
  assumes url: "getNodeDownloadUrl version platform = Inr url"
    and c0: "console l t w = (Inr u0, w0)"
    and dl: "downloadFile env url (archivePath env platform version) w0 = (Inr u1, w1)"
    and ed: "ensure_dir env (versionDir env platform version) w1 = (Inr u2, w2)"
    and ex: "extractNodeBinary env (archivePath env platform version)
               (versionDir env platform version) platform version w2 = (Inr u3, w3)"
    and ul: "fs env (UnlinkSync (archivePath env platform version)) w3 = (Inr u4, w4)"
    and present: "existsSync (executablePath env platform version) w4"
    and ch: "(if platform \<noteq> ''win32''
              then fs env (ChmodSync (executablePath env platform version) mode_755)
              else io_return ()) w4 = (Inr u5, w5)"
  shows "existsSync (executablePath env platform version) w5
     \<and> (\<exists>url. getNodeDownloadUrl version platform = Inr url
            \<and> downloads w5 = downloads w @ [Download url (archivePath env platform version)])
     \<and> extraction_event env platform version \<in> set (trace w5)
     \<and> \<not> existsSync (archivePath env platform version) w5
     \<and> (platform \<noteq> ''win32'' \<longrightarrow> (\<exists>k. disk w5 (executablePath env platform version) = Some (k, mode_755)))"
proof -
  let ?target = "executablePath env platform version"
  let ?archive = "archivePath env platform version"
  have w0: "downloads w0 = downloads w" using c0 by (auto simp: console_def)
  have d3: "downloads w3 = downloads w @ [Download url ?archive]"
    using downloadFile_InrD [OF dl] ensure_dir_world(1) [OF ed] extractNodeBinary_InrD(1) [OF ex] w0
    by simp
  have e3: "extraction_event env platform version \<in> set (trace w3)"
    by (rule extractNodeBinary_InrD(2) [OF ex])
  have w4: "w4 = record_event (Fs (UnlinkSync ?archive)) (w3\<lparr>disk := (disk w3)(?archive := None)\<rparr>)"
    using fs_InrD [OF ul] by (simp add: fs_effect_def)
  have a4: "disk w4 ?archive = None" by (simp add: w4)
  from present obtain k m where t4: "disk w4 ?target = Some (k, m)"
    by (cases "disk w4 ?target") (auto simp: existsSync_def)
  have d4: "downloads w4 = downloads w @ [Download url ?archive]" using d3 by (simp add: w4)
  have e4: "extraction_event env platform version \<in> set (trace w4)" using e3 by (simp add: w4)
  show ?thesis
  proof (cases "platform = ''win32''")
    case True
    with ch have "w5 = w4" by (simp add: io_return_def)
    with True present d4 e4 a4 url show ?thesis by (simp add: existsSync_def)
  next
    case False
    with ch have "fs env (ChmodSync ?target mode_755) w4 = (Inr u5, w5)" by simp
    from fs_InrD [OF this]
    have w5: "w5 = record_event (Fs (ChmodSync ?target mode_755)) (w4\<lparr>disk := (disk w4)(?target \<mapsto> (k, mode_755))\<rparr>)"
      by (simp add: fs_effect_def t4)
    have ne: "?archive \<noteq> ?target" using a4 t4 by auto
    show ?thesis
      using d4 e4 a4 ne url by (simp add: w5 existsSync_def)
  qed
qed

lemma miss_result:
  assumes "downloadNodeBinary_miss env platform version w = (Inr p, w')"
  shows "p = executablePath env platform version
     \<and> existsSync (executablePath env platform version) w'
     \<and> (\<exists>url. getNodeDownloadUrl version platform = Inr url
            \<and> downloads w' = downloads w @ [Download url (archivePath env platform version)])
     \<and> extraction_event env platform version \<in> set (trace w')
     \<and> \<not> existsSync (archivePath env platform version) w'
     \<and> (platform \<noteq> ''win32'' \<longrightarrow> (\<exists>k. disk w' (executablePath env platform version) = Some (k, mode_755)))"
proof (cases "getNodeDownloadUrl version platform")
  case (Inl e)
  with assms show ?thesis
    by (auto simp: downloadNodeBinary_miss_def io_bind_def console_def io_throw_def)
next
  case (Inr url)
  show ?thesis
    using assms [unfolded downloadNodeBinary_miss_def Inr sum.case]
    apply (erule_tac io_bind_InrE)
    apply (erule_tac io_bind_InrE)
    apply (erule_tac io_bind_InrE)
    apply (erule_tac io_bind_InrE)
    apply (erule_tac io_bind_InrE)
    apply (erule_tac check_tail_InrE)
    apply (rule conjI, assumption)
    apply (rule miss_steps [OF Inr]; assumption)
    done
qed

lemma io_bind_cases:
  assumes "io_bind m f w = (r, w')"
  obtains (throws) e where "m w = (Inl e, w')" "r = Inl e"
  | (continues) x w1 where "m w = (Inr x, w1)" "f x w1 = (r, w')"
  using assms by (auto simp: io_bind_def split: prod.splits sum.splits)

lemma downloadFile_downloads:
  "downloadFile env url p w = (r, w') \<Longrightarrow> downloads w' = downloads w @ [Download url p]"
  by (auto simp: downloadFile_def Let_def downloads_def record_event_def
      split: download_outcome.splits option.splits)

lemma extractNodeBinary_downloads:
  assumes "extractNodeBinary env a dir platform version w = (r, w')"
  shows "downloads w' = downloads w"
proof (cases "platform = ''win32''")
  case True
  with assms show ?thesis
    by (auto simp: extractNodeBinary_def extractZip_def split: prod.splits sum.splits)
next
  case False
  from assms False have x: "extractTarGz env a dir version platform w = (r, w')"
    by (simp add: extractNodeBinary_def)
  show ?thesis
    using x unfolding extractTarGz_def Let_def
  proof (cases rule: io_bind_cases)
    case (throws e)
    then show ?thesis
      by (auto simp: tar_extract_def split: prod.splits sum.splits)
  next
    case (continues x w1)
    from continues(1) have "downloads w1 = downloads w"
      by (auto simp: tar_extract_def split: prod.splits sum.splits)
    with move_up_world [OF continues(2)] show ?thesis by simp
  qed
qed

lemma check_tail_downloads:
  assumes "io_bind (io_get (existsSync t))
             (\<lambda>extracted. if \<not> extracted then io_throw e
                           else io_bind c (\<lambda>u. io_return t)) w = (r, w')"
    and "\<And>r w'. c w = (r, w') \<Longrightarrow> downloads w' = downloads w"
  shows "downloads w' = downloads w"
proof (cases "existsSync t w")
  case False
  with assms(1) show ?thesis by (simp add: io_bind_def io_get_def io_throw_def)
next
  case True
  with assms(1) have "io_bind c (\<lambda>u. io_return t) w = (r, w')"
    by (simp add: io_bind_def io_get_def)
  then show ?thesis
    by (cases rule: io_bind_cases) (auto simp: io_return_def dest: assms(2))
qed

lemma chmod_step_downloads:
  "(if platform \<noteq> ''win32'' then fs env (ChmodSync t m) else io_return ()) w = (r, w') \<Longrightarrow>
   downloads w' = downloads w"
  by (auto simp: io_return_def dest: fs_downloads split: if_splits)

lemma miss_downloads:
  assumes "downloadNodeBinary_miss env platform version w = (r, w')"
  shows "case getNodeDownloadUrl version platform of
           Inl e \<Rightarrow> r = Inl e \<and> downloads w' = downloads w
         | Inr url \<Rightarrow> downloads w' = downloads w @ [Download url (archivePath env platform version)]"
proof (cases "getNodeDownloadUrl version platform")
  case (Inl e)
  show ?thesis
    using assms unfolding downloadNodeBinary_miss_def Inl sum.case
    by (auto simp: io_bind_def console_def io_throw_def)
next
  case (Inr url)
  let ?archive = "archivePath env platform version"
  let ?w0 = "record_event (Console ''log'' (''Downloading Node.js '' @ version @ '' for '' @ platform @ ''...'')) w"
  have d0: "downloads ?w0 = downloads w" by simp
  have c0: "io_bind (console ''log'' (''Downloading Node.js '' @ version @ '' for '' @ platform @ ''...'')) f w
      = f () ?w0" for f :: "unit \<Rightarrow> path io"
    by (simp add: io_bind_def console_def)
  from assms [unfolded downloadNodeBinary_miss_def c0 Inr sum.case]
  have "io_bind (downloadFile env url ?archive)
     (\<lambda>u. io_bind (ensure_dir env (versionDir env platform version))
     (\<lambda>u. io_bind (extractNodeBinary env ?archive (versionDir env platform version) platform version)
     (\<lambda>u. io_bind (fs env (UnlinkSync ?archive))
     (\<lambda>u. io_bind (io_get (existsSync (executablePath env platform version)))
     (\<lambda>extracted.
       if \<not> extracted then
         io_throw (Error (''Failed to extract Node.js executable for '' @ platform))
       else
         io_bind (if platform \<noteq> ''win32''
                  then fs env (ChmodSync (executablePath env platform version) mode_755)
                  else io_return ())
           (\<lambda>u. io_return (executablePath env platform version))))))) ?w0 = (r, w')" .
  then have "downloads w' = downloads ?w0 @ [Download url ?archive]"
  proof (cases rule: io_bind_cases)
    case (throws e)
    then show ?thesis by (simp only: downloadFile_downloads)
  next
    case s1: (continues x1 w1)
    note d1 = downloadFile_downloads [OF s1(1)]
    from s1(2) have "downloads w' = downloads w1"
    proof (cases rule: io_bind_cases)
      case (throws e)
      then show ?thesis by (simp only: ensure_dir_world(1))
    next
      case s2: (continues x2 w2)
      note d2 = ensure_dir_world(1) [OF s2(1)]
      from s2(2) have "downloads w' = downloads w2"
      proof (cases rule: io_bind_cases)
        case (throws e)
        then show ?thesis by (simp only: extractNodeBinary_downloads)
      next
        case s3: (continues x3 w3)
        note d3 = extractNodeBinary_downloads [OF s3(1)]
        from s3(2) have "downloads w' = downloads w3"
        proof (cases rule: io_bind_cases)
          case (throws e)
          then show ?thesis by (simp only: fs_downloads)
        next
          case s4: (continues x4 w4)
          note d4 = fs_downloads [OF s4(1)]
          have "downloads w' = downloads w4"
            by (rule check_tail_downloads [OF s4(2)]) (rule chmod_step_downloads)
          with d4 show ?thesis by simp
        qed
        with d3 show ?thesis by simp
      qed
      with d2 show ?thesis by simp
    qed
    with d1 show ?thesis by simp
  qed
  with d0 Inr show ?thesis by simp
qed

lemma miss_progress:
  assumes url: "getNodeDownloadUrl version platform = Inr url"
    and dl: "downloadFile env url (archivePath env platform version)
               (record_event (Console ''log''
                  (''Downloading Node.js '' @ version @ '' for '' @ platform @ ''...'')) w2) = (Inr u1, w3)"
    and ed: "ensure_dir env (versionDir env platform version) w3 = (Inr u2, w4)"
    and ex: "extractNodeBinary env (archivePath env platform version)
               (versionDir env platform version) platform version w4 = (Inr u3, w5)"
    and ul: "fs env (UnlinkSync (archivePath env platform version)) w5 = (Inr u4, w6)"
  shows "downloadNodeBinary_miss env platform version w2 =
           (if existsSync (executablePath env platform version) w6 then
              (case (if platform \<noteq> ''win32''
                     then fs env (ChmodSync (executablePath env platform version) mode_755)
                     else io_return ()) w6 of
                 (Inl e, w7) \<Rightarrow> (Inl e, w7)
               | (Inr u, w7) \<Rightarrow> (Inr (executablePath env platform version), w7))
            else (Inl (Error (''Failed to extract Node.js executable for '' @ platform)), w6))"
    and "extraction_event env platform version \<in> set (trace w6)"
    and "\<not> existsSync (archivePath env platform version) w6"
    and "\<And>u w7. platform \<noteq> ''win32'' \<Longrightarrow> existsSync (executablePath env platform version) w6 \<Longrightarrow>
           fs env (ChmodSync (executablePath env platform version) mode_755) w6 = (Inr u, w7) \<Longrightarrow>
           \<exists>k. disk w7 (executablePath env platform version) = Some (k, mode_755)"
proof -
  let ?target = "executablePath env platform version"
  let ?archive = "archivePath env platform version"
  show "downloadNodeBinary_miss env platform version w2 =
           (if existsSync ?target w6 then
              (case (if platform \<noteq> ''win32'' then fs env (ChmodSync ?target mode_755)
                     else io_return ()) w6 of
                 (Inl e, w7) \<Rightarrow> (Inl e, w7)
               | (Inr u, w7) \<Rightarrow> (Inr ?target, w7))
            else (Inl (Error (''Failed to extract Node.js executable for '' @ platform)), w6))"
  proof -
    have c0: "io_bind (console ''log'' (''Downloading Node.js '' @ version @ '' for '' @ platform @ ''...'')) f w2
      = f () (record_event (Console ''log''
                  (''Downloading Node.js '' @ version @ '' for '' @ platform @ ''...'')) w2)"
      for f :: "unit \<Rightarrow> path io"
      by (simp add: io_bind_def console_def)
    have s1: "io_bind (downloadFile env url ?archive) f
                (record_event (Console ''log''
                  (''Downloading Node.js '' @ version @ '' for '' @ platform @ ''...'')) w2) = f u1 w3"
      for f :: "unit \<Rightarrow> path io"
      using dl by (simp add: io_bind_def)
    have s2: "io_bind (ensure_dir env (versionDir env platform version)) f w3 = f u2 w4"
      for f :: "unit \<Rightarrow> path io"
      using ed by (simp add: io_bind_def)
    have s3: "io_bind (extractNodeBinary env ?archive (versionDir env platform version)
                platform version) f w4 = f u3 w5"
      for f :: "unit \<Rightarrow> path io"
      using ex by (simp add: io_bind_def)
    have s4: "io_bind (fs env (UnlinkSync ?archive)) f w5 = f u4 w6"
      for f :: "unit \<Rightarrow> path io"
      using ul by (simp add: io_bind_def)
    have s5: "io_bind (io_get (existsSync ?target)) f w6 = f (existsSync ?target w6) w6"
      for f :: "bool \<Rightarrow> path io"
      by (simp add: io_bind_def io_get_def)
    show ?thesis
      unfolding downloadNodeBinary_miss_def c0 url sum.case s1 s2 s3 s4 s5
      by (simp add: io_bind_def io_throw_def io_return_def split: prod.splits sum.splits)
  qed
  have w6: "w6 = record_event (Fs (UnlinkSync ?archive)) (w5\<lparr>disk := (disk w5)(?archive := None)\<rparr>)"
    using fs_InrD [OF ul] by (simp add: fs_effect_def)
  show "extraction_event env platform version \<in> set (trace w6)"
    using extractNodeBinary_InrD(2) [OF ex] by (simp add: w6)
  show "\<not> existsSync ?archive w6" by (simp add: w6 existsSync_def)
  show "\<exists>k. disk w7 ?target = Some (k, mode_755)"
    if "platform \<noteq> ''win32''" "existsSync ?target w6"
      "fs env (ChmodSync ?target mode_755) w6 = (Inr u, w7)" for u w7
  proof -
    from that(2) obtain k m where t: "disk w6 ?target = Some (k, m)"
      by (cases "disk w6 ?target") (auto simp: existsSync_def)
    from fs_InrD [OF that(3)] show ?thesis by (simp add: fs_effect_def t)
  qed
qed

lemma pair_eqI: "fst x = a \<Longrightarrow> x = (a, snd x)"
  by (cases x) simp

text \<open>
  C5. With \<open>version\<close> the version the resolver gives, \<open>downloadNodeBinary\<close> returns only
  the canonical cache path (the cache directory, then the platform, then the version, then
  \<open>node\<close> or \<open>node.exe\<close>) and only when the binary is there. Every run, also one that
  throws, records no download or exactly one, of the URL of the platform to the archive
  path. On a warm cache (the binary and the cache directories exist) it returns the path,
  downloads nothing and leaves the disk as it was. On a cache miss (the binary is absent,
  the cache directories are there or have been made, and the platform has a URL) the
  download is recorded exactly once, whatever happens after it; and when the download, the
  creation of the version directory, the extraction and the removal of the archive each
  return, the extraction has been recorded and the archive file is gone, and then the
  method throws \<open>Failed to extract Node.js executable\<close> if the binary is absent, and
  otherwise sets the mode 755 off Windows and returns the canonical path (or throws the
  error of that \<^verbatim>\<open>chmodSync\<close>).
\<close>

theorem downloadNodeBinary_cache:
  "\<exists>version w0. getRecommendedNodeVersion env w = (Inr version, w0)
     \<and> (case fst (downloadNodeBinary env platform w) of
           Inl e \<Rightarrow> True
         | Inr p \<Rightarrow>
             p = executablePath env platform version
             \<and> existsSync p (snd (downloadNodeBinary env platform w))
             \<and> (downloads (snd (downloadNodeBinary env platform w)) = downloads w
                \<or> (\<exists>url. getNodeDownloadUrl version platform = Inr url
                      \<and> downloads (snd (downloadNodeBinary env platform w)) =
                          downloads w @ [Download url (archivePath env platform version)])
                  \<and> extraction_event env platform version
                      \<in> set (trace (snd (downloadNodeBinary env platform w)))
                  \<and> \<not> existsSync (archivePath env platform version)
                        (snd (downloadNodeBinary env platform w))
                  \<and> (platform \<noteq> ''win32'' \<longrightarrow>
                       (\<exists>k. disk (snd (downloadNodeBinary env platform w)) p = Some (k, mode_755)))))
     \<and> (downloads (snd (downloadNodeBinary env platform w)) = downloads w
        \<or> (\<exists>url. getNodeDownloadUrl version platform = Inr url
              \<and> downloads (snd (downloadNodeBinary env platform w)) =
                  downloads w @ [Download url (archivePath env platform version)]))
     \<and> (existsSync (executablePath env platform version) w
          \<and> existsSync (cacheDir env) w \<and> existsSync (platformDir env platform) w \<longrightarrow>
            fst (downloadNodeBinary env platform w) = Inr (executablePath env platform version)
            \<and> downloads (snd (downloadNodeBinary env platform w)) = downloads w
            \<and> disk (snd (downloadNodeBinary env platform w)) = disk w)
     \<and> (\<not> existsSync (executablePath env platform version) w
          \<and> executablePath env platform version \<noteq> cacheDir env
          \<and> executablePath env platform version \<noteq> platformDir env platform \<longrightarrow>
            downloads (snd (downloadNodeBinary env platform w)) \<noteq> downloads w
            \<or> (\<exists>e. fst (downloadNodeBinary env platform w) = Inl e))
     \<and> (\<forall>w1 w2 url.
           \<not> existsSync (executablePath env platform version) w
           \<and> executablePath env platform version \<noteq> cacheDir env
           \<and> executablePath env platform version \<noteq> platformDir env platform
           \<and> ensure_dir env (cacheDir env) w0 = (Inr (), w1)
           \<and> ensure_dir env (platformDir env platform) w1 = (Inr (), w2)
           \<and> getNodeDownloadUrl version platform = Inr url \<longrightarrow>
             downloads (snd (downloadNodeBinary env platform w)) =
               downloads w @ [Download url (archivePath env platform version)]
             \<and> (\<forall>w3 w4 w5 w6.
                   downloadFile env url (archivePath env platform version)
                     (record_event (Console ''log''
                        (''Downloading Node.js '' @ version @ '' for '' @ platform @ ''...'')) w2)
                     = (Inr (), w3)
                   \<and> ensure_dir env (versionDir env platform version) w3 = (Inr (), w4)
                   \<and> extractNodeBinary env (archivePath env platform version)
                       (versionDir env platform version) platform version w4 = (Inr (), w5)
                   \<and> fs env (UnlinkSync (archivePath env platform version)) w5 = (Inr (), w6) \<longrightarrow>
                     extraction_event env platform version \<in> set (trace w6)
                     \<and> \<not> existsSync (archivePath env platform version) w6
                     \<and> (if existsSync (executablePath env platform version) w6 then
                          (case (if platform \<noteq> ''win32''
                                 then fs env (ChmodSync (executablePath env platform version) mode_755)
                                 else io_return ()) w6 of
                             (Inl e, w7) \<Rightarrow> downloadNodeBinary env platform w = (Inl e, w7)
                           | (Inr u, w7) \<Rightarrow>
                               downloadNodeBinary env platform w =
                                 (Inr (executablePath env platform version), w7)
                               \<and> (platform \<noteq> ''win32'' \<longrightarrow>
                                    (\<exists>k. disk w7 (executablePath env platform version) =
                                           Some (k, mode_755))))
                        else downloadNodeBinary env platform w =
                               (Inl (Error (''Failed to extract Node.js executable for '' @ platform)),
                                w6))))"
proof -
  obtain version w0 where g: "getRecommendedNodeVersion env w = (Inr version, w0)"
    and k0: "disk w0 = disk w" and l0: "downloads w0 = downloads w"
    using resolver_world [of env w] by blast
  let ?target = "executablePath env platform version"
  let ?archive = "archivePath env platform version"
  let ?run = "downloadNodeBinary env platform w"
  let ?hit = "\<lambda>w2. record_event (Console ''log'' (''Using cached Node.js '' @ version @ '' for '' @ platform)) w2"
  obtain r1 w1 where e1: "ensure_dir env (cacheDir env) w0 = (r1, w1)"
    by (cases "ensure_dir env (cacheDir env) w0")
  obtain r2 w2 where e2: "ensure_dir env (platformDir env platform) w1 = (r2, w2)"
    by (cases "ensure_dir env (platformDir env platform) w1")
  have l2: "downloads w2 = downloads w"
    using ensure_dir_world(1) [OF e1] ensure_dir_world(1) [OF e2] l0 by simp
  have fail1: "?run = (Inl e, w1)" if "r1 = Inl e" for e
    using that g e1 by (simp add: downloadNodeBinary_def io_bind_def)
  have fail2: "?run = (Inl e, w2)" if "r1 = Inr u" "r2 = Inl e" for u e
    using that g e1 e2 by (simp add: downloadNodeBinary_def io_bind_def)
  have hit: "?run = (Inr ?target, ?hit w2)" if "r1 = Inr u" "r2 = Inr u'" "existsSync ?target w2" for u u'
    using that g e1 e2
    by (simp add: downloadNodeBinary_def io_bind_def io_get_def console_def io_return_def)
  have miss: "?run = downloadNodeBinary_miss env platform version w2"
    if "r1 = Inr u" "r2 = Inr u'" "\<not> existsSync ?target w2" for u u'
    using that g e1 e2
    by (simp add: downloadNodeBinary_def io_bind_def io_get_def)
  have A: "(case fst ?run of
           Inl e \<Rightarrow> True
         | Inr p \<Rightarrow>
             p = ?target \<and> existsSync p (snd ?run)
             \<and> (downloads (snd ?run) = downloads w
                \<or> (\<exists>url. getNodeDownloadUrl version platform = Inr url
                      \<and> downloads (snd ?run) = downloads w @ [Download url ?archive])
                  \<and> extraction_event env platform version \<in> set (trace (snd ?run))
                  \<and> \<not> existsSync ?archive (snd ?run)
                  \<and> (platform \<noteq> ''win32'' \<longrightarrow> (\<exists>k. disk (snd ?run) p = Some (k, mode_755)))))"
  proof (cases "fst ?run")
    case (Inl e)
    then show ?thesis by simp
  next
    case (Inr p)
    from Inr fail1 obtain u where r1: "r1 = Inr u" by (cases r1) auto
    from Inr fail2 [OF r1] obtain u' where r2: "r2 = Inr u'" by (cases r2) auto
    show ?thesis
    proof (cases "existsSync ?target w2")
      case True
      show ?thesis
        using True l2 by (simp add: hit [OF r1 r2 True] existsSync_def)
    next
      case False
      from Inr miss [OF r1 r2 False]
      have "downloadNodeBinary_miss env platform version w2 = (Inr p, snd ?run)"
        by (metis prod.collapse)
      from miss_result [OF this] Inr l2 show ?thesis by simp
    qed
  qed
  have B: "fst ?run = Inr ?target \<and> downloads (snd ?run) = downloads w \<and> disk (snd ?run) = disk w"
    if "existsSync ?target w" "existsSync (cacheDir env) w" "existsSync (platformDir env platform) w"
  proof -
    from that k0 have x: "existsSync ?target w0" "existsSync (cacheDir env) w0"
      "existsSync (platformDir env platform) w0" by (simp_all add: existsSync_def)
    from e1 ensure_dir_present [OF x(2), of env] have 1: "r1 = Inr ()" "w1 = w0" by simp_all
    from e2 1 ensure_dir_present [OF x(3), of env] have 2: "r2 = Inr ()" "w2 = w0" by simp_all
    show ?thesis
      using hit [OF 1(1) 2(1)] x(1) 2(2) l0 k0 by simp
  qed
  have C: "downloads (snd ?run) \<noteq> downloads w \<or> (\<exists>e. fst ?run = Inl e)"
    if "\<not> existsSync ?target w" "?target \<noteq> cacheDir env" "?target \<noteq> platformDir env platform"
  proof (cases "fst ?run")
    case (Inl e)
    then show ?thesis by simp
  next
    case (Inr p)
    from Inr fail1 obtain u where r1: "r1 = Inr u" by (cases r1) auto
    from Inr fail2 [OF r1] obtain u' where r2: "r2 = Inr u'" by (cases r2) auto
    have "disk w2 ?target = disk w ?target"
      using ensure_dir_world(2) [OF e1 that(2)] ensure_dir_world(2) [OF e2 that(3)] k0 by simp
    with that(1) have no: "\<not> existsSync ?target w2" by (simp add: existsSync_def)
    from Inr miss [OF r1 r2 no]
    have "downloadNodeBinary_miss env platform version w2 = (Inr p, snd ?run)"
      by (metis prod.collapse)
    from miss_result [OF this] l2 show ?thesis by auto
  qed
  have fst_fail: "downloads (snd ?run) = downloads w
        \<or> (\<exists>url. getNodeDownloadUrl version platform = Inr url
              \<and> downloads (snd ?run) = downloads w @ [Download url ?archive])"
  proof (cases r1)
    case (Inl e)
    from fail1 [OF Inl] ensure_dir_world(1) [OF e1] l0 show ?thesis by simp
  next
    case r1: (Inr u)
    show ?thesis
    proof (cases r2)
      case (Inl e)
      from fail2 [OF r1 Inl] l2 show ?thesis by simp
    next
      case r2: (Inr u')
      show ?thesis
      proof (cases "existsSync ?target w2")
        case True
        from hit [OF r1 r2 True] l2 show ?thesis by simp
      next
        case False
        have "downloadNodeBinary_miss env platform version w2 = (fst ?run, snd ?run)"
          by (simp add: miss [OF r1 r2 False])
        from miss_downloads [OF this] l2 show ?thesis
          by (cases "getNodeDownloadUrl version platform") simp_all
      qed
    qed
  qed
  have D: "downloads (snd ?run) = downloads w @ [Download url ?archive]
         \<and> (\<forall>w3 w4 w5 w6.
               downloadFile env url ?archive
                 (record_event (Console ''log''
                    (''Downloading Node.js '' @ version @ '' for '' @ platform @ ''...'')) w2')
                 = (Inr (), w3)
               \<and> ensure_dir env (versionDir env platform version) w3 = (Inr (), w4)
               \<and> extractNodeBinary env ?archive
                   (versionDir env platform version) platform version w4 = (Inr (), w5)
               \<and> fs env (UnlinkSync ?archive) w5 = (Inr (), w6) \<longrightarrow>
                 extraction_event env platform version \<in> set (trace w6)
                 \<and> \<not> existsSync ?archive w6
                 \<and> (if existsSync ?target w6 then
                      (case (if platform \<noteq> ''win32''
                             then fs env (ChmodSync ?target mode_755)
                             else io_return ()) w6 of
                         (Inl e, w7) \<Rightarrow> ?run = (Inl e, w7)
                       | (Inr u, w7) \<Rightarrow>
                           ?run = (Inr ?target, w7)
                           \<and> (platform \<noteq> ''win32'' \<longrightarrow> (\<exists>k. disk w7 ?target = Some (k, mode_755))))
                    else ?run =
                           (Inl (Error (''Failed to extract Node.js executable for '' @ platform)),
                            w6)))"
    if h: "\<not> existsSync ?target w" "?target \<noteq> cacheDir env" "?target \<noteq> platformDir env platform"
      "ensure_dir env (cacheDir env) w0 = (Inr (), w1')"
      "ensure_dir env (platformDir env platform) w1' = (Inr (), w2')"
      "getNodeDownloadUrl version platform = Inr url" for w1' w2' url
  proof -
    have "disk w2' ?target = disk w ?target"
      using ensure_dir_world(2) [OF h(4) h(2)] ensure_dir_world(2) [OF h(5) h(3)] k0 by simp
    with h(1) have no: "\<not> existsSync ?target w2'" by (simp add: existsSync_def)
    have m: "?run = downloadNodeBinary_miss env platform version w2'"
      using g h(4) h(5) no by (simp add: downloadNodeBinary_def io_bind_def io_get_def)
    have l2': "downloads w2' = downloads w"
      using ensure_dir_world(1) [OF h(4)] ensure_dir_world(1) [OF h(5)] l0 by simp
    have "downloadNodeBinary_miss env platform version w2' = (fst ?run, snd ?run)"
      by (simp add: m)
    from miss_downloads [OF this] h(6) l2'
    have d: "downloads (snd ?run) = downloads w @ [Download url ?archive]" by simp
    have p: "extraction_event env platform version \<in> set (trace w6)
                 \<and> \<not> existsSync ?archive w6
                 \<and> (if existsSync ?target w6 then
                      (case (if platform \<noteq> ''win32''
                             then fs env (ChmodSync ?target mode_755)
                             else io_return ()) w6 of
                         (Inl e, w7) \<Rightarrow> ?run = (Inl e, w7)
                       | (Inr u, w7) \<Rightarrow>
                           ?run = (Inr ?target, w7)
                           \<and> (platform \<noteq> ''win32'' \<longrightarrow> (\<exists>k. disk w7 ?target = Some (k, mode_755))))
                    else ?run =
                           (Inl (Error (''Failed to extract Node.js executable for '' @ platform)),
                            w6))"
      if s: "downloadFile env url ?archive
                 (record_event (Console ''log''
                    (''Downloading Node.js '' @ version @ '' for '' @ platform @ ''...'')) w2')
                 = (Inr (), w3)"
        "ensure_dir env (versionDir env platform version) w3 = (Inr (), w4)"
        "extractNodeBinary env ?archive
                   (versionDir env platform version) platform version w4 = (Inr (), w5)"
        "fs env (UnlinkSync ?archive) w5 = (Inr (), w6)" for w3 w4 w5 w6
    proof -
      note mp = miss_progress [OF h(6) s]
      obtain rc w7 where c: "(if platform \<noteq> ''win32'' then fs env (ChmodSync ?target mode_755)
                             else io_return ()) w6 = (rc, w7)"
        by (cases "(if platform \<noteq> ''win32'' then fs env (ChmodSync ?target mode_755)
                             else io_return ()) w6")
      have mode: "\<exists>k. disk w7 ?target = Some (k, mode_755)"
        if "platform \<noteq> ''win32''" "existsSync ?target w6" "rc = Inr u" for u
        using mp(4) [OF that(1) that(2)] c that by simp
      show ?thesis
      proof (cases "existsSync ?target w6")
        case False
        then show ?thesis using mp(1) mp(2) mp(3) by (simp add: m)
      next
        case True
        show ?thesis
        proof (cases rc)
          case (Inl e)
          then show ?thesis using mp(1) mp(2) mp(3) True c by (simp add: m)
        next
          case (Inr u)
          then show ?thesis using mp(1) mp(2) mp(3) True c mode [OF _ True Inr] by (simp add: m)
        qed
      qed
    qed
    from d p show ?thesis by blast
  qed
  from g A fst_fail B C D show ?thesis by blast
qed

theorem downloadNodeBinary_cache_witness:
  "(\<exists>w0 w1 w2 w3 w4 w5 w6 w7.
      getRecommendedNodeVersion sample_env sample_world = (Inr ''20.11.0'', w0)
      \<and> \<not> existsSync (executablePath sample_env ''darwin'' ''20.11.0'') sample_world
      \<and> executablePath sample_env ''darwin'' ''20.11.0'' \<noteq> cacheDir sample_env
      \<and> executablePath sample_env ''darwin'' ''20.11.0'' \<noteq> platformDir sample_env ''darwin''
      \<and> ensure_dir sample_env (cacheDir sample_env) w0 = (Inr (), w1)
      \<and> ensure_dir sample_env (platformDir sample_env ''darwin'') w1 = (Inr (), w2)
      \<and> getNodeDownloadUrl ''20.11.0'' ''darwin'' =
          Inr ''https://nodejs.org/dist/v20.11.0/node-v20.11.0-darwin-x64.tar.gz''
      \<and> downloadFile sample_env ''https://nodejs.org/dist/v20.11.0/node-v20.11.0-darwin-x64.tar.gz''
          (archivePath sample_env ''darwin'' ''20.11.0'')
          (record_event (Console ''log''
             (''Downloading Node.js '' @ ''20.11.0'' @ '' for '' @ ''darwin'' @ ''...'')) w2)
          = (Inr (), w3)
      \<and> ensure_dir sample_env (versionDir sample_env ''darwin'' ''20.11.0'') w3 = (Inr (), w4)
      \<and> extractNodeBinary sample_env (archivePath sample_env ''darwin'' ''20.11.0'')
          (versionDir sample_env ''darwin'' ''20.11.0'') ''darwin'' ''20.11.0'' w4 = (Inr (), w5)
      \<and> fs sample_env (UnlinkSync (archivePath sample_env ''darwin'' ''20.11.0'')) w5 = (Inr (), w6)
      \<and> existsSync (executablePath sample_env ''darwin'' ''20.11.0'') w6
      \<and> fs sample_env (ChmodSync (executablePath sample_env ''darwin'' ''20.11.0'') mode_755) w6
          = (Inr (), w7)
      \<and> downloadNodeBinary sample_env ''darwin'' sample_world =
          (Inr (executablePath sample_env ''darwin'' ''20.11.0''), w7)
      \<and> executablePath sample_env ''darwin'' ''20.11.0'' =
          ''/home/u/.node-package-builder/cache/darwin/20.11.0/node''
      \<and> downloads w7 =
          [Download ''https://nodejs.org/dist/v20.11.0/node-v20.11.0-darwin-x64.tar.gz''
             ''/home/u/.node-package-builder/cache/darwin/node-20.11.0-darwin.tar.gz'']
      \<and> \<not> existsSync ''/home/u/.node-package-builder/cache/darwin/node-20.11.0-darwin.tar.gz'' w6
      \<and> (\<exists>k. disk w7 (executablePath sample_env ''darwin'' ''20.11.0'') = Some (k, mode_755)))
   \<and> (\<exists>w6. downloadNodeBinary empty_archive_env ''darwin'' sample_world =
               (Inl (Error ''Failed to extract Node.js executable for darwin''), w6)
            \<and> \<not> existsSync ''/home/u/.node-package-builder/cache/darwin/node-20.11.0-darwin.tar.gz'' w6
            \<and> downloads w6 =
                [Download ''https://nodejs.org/dist/v20.11.0/node-v20.11.0-darwin-x64.tar.gz''
                   ''/home/u/.node-package-builder/cache/darwin/node-20.11.0-darwin.tar.gz''])
   \<and> fst (downloadNodeBinary sample_env ''win32'' sample_world) =
       Inr ''/home/u/.node-package-builder/cache/win32/20.11.0/node.exe''
   \<and> downloads (snd (downloadNodeBinary sample_env ''win32'' sample_world)) =
       [Download ''https://nodejs.org/dist/v20.11.0/node-v20.11.0-win-x64.zip''
          ''/home/u/.node-package-builder/cache/win32/node-20.11.0-win32.zip'']
   \<and> Unzip ''/home/u/.node-package-builder/cache/win32/node-20.11.0-win32.zip''
        ''/home/u/.node-package-builder/cache/win32/20.11.0''
        \<in> set (trace (snd (downloadNodeBinary sample_env ''win32'' sample_world)))
   \<and> \<not> existsSync ''/home/u/.node-package-builder/cache/win32/node-20.11.0-win32.zip''
         (snd (downloadNodeBinary sample_env ''win32'' sample_world))
   \<and> existsSync (executablePath sample_env ''darwin'' ''20.11.0'') warm_world
   \<and> existsSync (cacheDir sample_env) warm_world
   \<and> existsSync (platformDir sample_env ''darwin'') warm_world
   \<and> fst (downloadNodeBinary sample_env ''darwin'' warm_world) =
       Inr ''/home/u/.node-package-builder/cache/darwin/20.11.0/node''
   \<and> downloads (snd (downloadNodeBinary sample_env ''darwin'' warm_world)) = downloads warm_world"
proof -
  let ?url = "''https://nodejs.org/dist/v20.11.0/node-v20.11.0-darwin-x64.tar.gz''"
  let ?target = "executablePath sample_env ''darwin'' ''20.11.0''"
  let ?archive = "archivePath sample_env ''darwin'' ''20.11.0''"
  let ?vdir = "versionDir sample_env ''darwin'' ''20.11.0''"
  let ?msg = "Console ''log'' (''Downloading Node.js '' @ ''20.11.0'' @ '' for '' @ ''darwin'' @ ''...'')"
  have paths: "?target = ''/home/u/.node-package-builder/cache/darwin/20.11.0/node''"
    "?archive = ''/home/u/.node-package-builder/cache/darwin/node-20.11.0-darwin.tar.gz''"
    "executablePath empty_archive_env ''darwin'' ''20.11.0'' = ?target"
    "archivePath empty_archive_env ''darwin'' ''20.11.0'' = ?archive"
    "versionDir empty_archive_env ''darwin'' ''20.11.0'' = ?vdir"
    "cacheDir empty_archive_env = cacheDir sample_env"
    "platformDir empty_archive_env ''darwin'' = platformDir sample_env ''darwin''"
    by code_simp+
  have cold: "\<not> existsSync ?target sample_world" "?target \<noteq> cacheDir sample_env"
    "?target \<noteq> platformDir sample_env ''darwin''"
    "getNodeDownloadUrl ''20.11.0'' ''darwin'' = Inr ?url"
    "downloads sample_world = []"
    by code_simp+

  txt \<open>The cold run for \<open>darwin\<close>, step by step.\<close>
  let ?w0 = "snd (getRecommendedNodeVersion sample_env sample_world)"
  let ?w1 = "snd (ensure_dir sample_env (cacheDir sample_env) ?w0)"
  let ?w2 = "snd (ensure_dir sample_env (platformDir sample_env ''darwin'') ?w1)"
  let ?w3 = "snd (downloadFile sample_env ?url ?archive (record_event ?msg ?w2))"
  let ?w4 = "snd (ensure_dir sample_env ?vdir ?w3)"
  let ?w5 = "snd (extractNodeBinary sample_env ?archive ?vdir ''darwin'' ''20.11.0'' ?w4)"
  let ?w6 = "snd (fs sample_env (UnlinkSync ?archive) ?w5)"
  let ?w7 = "snd (fs sample_env (ChmodSync ?target mode_755) ?w6)"
  have f: "fst (getRecommendedNodeVersion sample_env sample_world) = Inr ''20.11.0''"
    "fst (ensure_dir sample_env (cacheDir sample_env) ?w0) = Inr ()"
    "fst (ensure_dir sample_env (platformDir sample_env ''darwin'') ?w1) = Inr ()"
    "fst (downloadFile sample_env ?url ?archive (record_event ?msg ?w2)) = Inr ()"
    "fst (ensure_dir sample_env ?vdir ?w3) = Inr ()"
    "fst (extractNodeBinary sample_env ?archive ?vdir ''darwin'' ''20.11.0'' ?w4) = Inr ()"
    "fst (fs sample_env (UnlinkSync ?archive) ?w5) = Inr ()"
    "fst (fs sample_env (ChmodSync ?target mode_755) ?w6) = Inr ()"
    by code_simp+
  have present: "existsSync ?target ?w6" by code_simp
  note s = f [THEN pair_eqI]
  have darwin: "downloadNodeBinary sample_env ''darwin'' sample_world = (Inr ?target, ?w7)
      \<and> downloads ?w7 = [Download ?url ?archive]
      \<and> \<not> existsSync ?archive ?w6
      \<and> (\<exists>k. disk ?w7 ?target = Some (k, mode_755))"
    using downloadNodeBinary_cache [of sample_env sample_world "''darwin''"]
    apply (elim exE conjE)
    subgoal premises p for version w0
    proof -
      from p(1) s(1) have v: "version = ''20.11.0''" and w0: "w0 = ?w0" by simp_all
      have h1: "\<not> existsSync ?target sample_world
           \<and> ?target \<noteq> cacheDir sample_env
           \<and> ?target \<noteq> platformDir sample_env ''darwin''
           \<and> ensure_dir sample_env (cacheDir sample_env) ?w0 = (Inr (), ?w1)
           \<and> ensure_dir sample_env (platformDir sample_env ''darwin'') ?w1 = (Inr (), ?w2)
           \<and> getNodeDownloadUrl ''20.11.0'' ''darwin'' = Inr ?url"
        using cold(1-4) s(2) s(3) by (intro conjI)
      have h2: "downloadFile sample_env ?url ?archive (record_event ?msg ?w2) = (Inr (), ?w3)
           \<and> ensure_dir sample_env ?vdir ?w3 = (Inr (), ?w4)
           \<and> extractNodeBinary sample_env ?archive ?vdir ''darwin'' ''20.11.0'' ?w4 = (Inr (), ?w5)
           \<and> fs sample_env (UnlinkSync ?archive) ?w5 = (Inr (), ?w6)"
        using s(4) s(5) s(6) s(7) by (intro conjI)
      note c1 = p(6) [unfolded v w0, rule_format, OF h1]
      note c2 = c1 [THEN conjunct2, rule_format, OF h2]
      have ne: "''darwin'' \<noteq> ''win32''" by simp
      from c2 present ne
      have r: "downloadNodeBinary sample_env ''darwin'' sample_world = (Inr ?target, ?w7)"
        and m: "\<exists>k. disk ?w7 ?target = Some (k, mode_755)"
        by (simp_all only: if_True case_prod_beta f(8) sum.case simp_thms)
      from c1 r cold(5) have d: "downloads ?w7 = [Download ?url ?archive]"
        by (simp only: snd_conv append_Nil)
      from c2 r m d show ?thesis by blast
    qed
    done
  txt \<open>The same run when the archive does not hold the binary.\<close>
  let ?e = "empty_archive_env"
  let ?target' = "executablePath ?e ''darwin'' ''20.11.0''"
  let ?archive' = "archivePath ?e ''darwin'' ''20.11.0''"
  let ?vdir' = "versionDir ?e ''darwin'' ''20.11.0''"
  let ?x0 = "snd (getRecommendedNodeVersion ?e sample_world)"
  let ?x1 = "snd (ensure_dir ?e (cacheDir ?e) ?x0)"
  let ?x2 = "snd (ensure_dir ?e (platformDir ?e ''darwin'') ?x1)"
  let ?x3 = "snd (downloadFile ?e ?url ?archive' (record_event ?msg ?x2))"
  let ?x4 = "snd (ensure_dir ?e ?vdir' ?x3)"
  let ?x5 = "snd (extractNodeBinary ?e ?archive' ?vdir' ''darwin'' ''20.11.0'' ?x4)"
  let ?x6 = "snd (fs ?e (UnlinkSync ?archive') ?x5)"
  have g: "fst (getRecommendedNodeVersion ?e sample_world) = Inr ''20.11.0''"
    "fst (ensure_dir ?e (cacheDir ?e) ?x0) = Inr ()"
    "fst (ensure_dir ?e (platformDir ?e ''darwin'') ?x1) = Inr ()"
    "fst (downloadFile ?e ?url ?archive' (record_event ?msg ?x2)) = Inr ()"
    "fst (ensure_dir ?e ?vdir' ?x3) = Inr ()"
    "fst (extractNodeBinary ?e ?archive' ?vdir' ''darwin'' ''20.11.0'' ?x4) = Inr ()"
    "fst (fs ?e (UnlinkSync ?archive') ?x5) = Inr ()"
    by code_simp+
  have absent: "\<not> existsSync ?target' ?x6" by code_simp
  have cold': "\<not> existsSync ?target' sample_world" "?target' \<noteq> cacheDir ?e"
    "?target' \<noteq> platformDir ?e ''darwin''"
    by code_simp+
  note t = g [THEN pair_eqI]
  have empty: "downloadNodeBinary ?e ''darwin'' sample_world =
        (Inl (Error ''Failed to extract Node.js executable for darwin''), ?x6)
      \<and> \<not> existsSync ?archive' ?x6
      \<and> downloads ?x6 = [Download ?url ?archive']"
    using downloadNodeBinary_cache [of ?e sample_world "''darwin''"]
    apply (elim exE conjE)
    subgoal premises p for version w0
    proof -
      from p(1) t(1) have v: "version = ''20.11.0''" and w0: "w0 = ?x0" by simp_all
      have h1: "\<not> existsSync ?target' sample_world
           \<and> ?target' \<noteq> cacheDir ?e
           \<and> ?target' \<noteq> platformDir ?e ''darwin''
           \<and> ensure_dir ?e (cacheDir ?e) ?x0 = (Inr (), ?x1)
           \<and> ensure_dir ?e (platformDir ?e ''darwin'') ?x1 = (Inr (), ?x2)
           \<and> getNodeDownloadUrl ''20.11.0'' ''darwin'' = Inr ?url"
        using cold' cold(4) t(2) t(3) by (intro conjI)
      have h2: "downloadFile ?e ?url ?archive' (record_event ?msg ?x2) = (Inr (), ?x3)
           \<and> ensure_dir ?e ?vdir' ?x3 = (Inr (), ?x4)
           \<and> extractNodeBinary ?e ?archive' ?vdir' ''darwin'' ''20.11.0'' ?x4 = (Inr (), ?x5)
           \<and> fs ?e (UnlinkSync ?archive') ?x5 = (Inr (), ?x6)"
        using t(4) t(5) t(6) t(7) by (intro conjI)
      note c1 = p(6) [unfolded v w0, rule_format, OF h1]
      note c2 = c1 [THEN conjunct2, rule_format, OF h2]
      from c2 absent
      have r: "downloadNodeBinary ?e ''darwin'' sample_world =
        (Inl (Error ''Failed to extract Node.js executable for darwin''), ?x6)"
        by (simp only: if_False append_Cons append_Nil simp_thms)
      from c1 r cold(5) have d: "downloads ?x6 = [Download ?url ?archive']"
        by (simp only: snd_conv append_Nil)
      from c2 r d show ?thesis by blast
    qed
    done

  txt \<open>The cold run for \<open>win32\<close>, and the warm run for \<open>darwin\<close>.\<close>
  let ?win = "downloadNodeBinary sample_env ''win32'' sample_world"
  have win: "fst (getRecommendedNodeVersion sample_env sample_world) = Inr ''20.11.0''"
    "fst ?win = Inr ''/home/u/.node-package-builder/cache/win32/20.11.0/node.exe''"
    "downloads (snd ?win) =
       [Download ''https://nodejs.org/dist/v20.11.0/node-v20.11.0-win-x64.zip''
          ''/home/u/.node-package-builder/cache/win32/node-20.11.0-win32.zip'']"
    "extraction_event sample_env ''win32'' ''20.11.0'' =
       Unzip ''/home/u/.node-package-builder/cache/win32/node-20.11.0-win32.zip''
         ''/home/u/.node-package-builder/cache/win32/20.11.0''"
    "archivePath sample_env ''win32'' ''20.11.0'' =
       ''/home/u/.node-package-builder/cache/win32/node-20.11.0-win32.zip''"
    by code_simp+
  have zip: "Unzip ''/home/u/.node-package-builder/cache/win32/node-20.11.0-win32.zip''
        ''/home/u/.node-package-builder/cache/win32/20.11.0'' \<in> set (trace (snd ?win))
      \<and> \<not> existsSync ''/home/u/.node-package-builder/cache/win32/node-20.11.0-win32.zip'' (snd ?win)"
    using downloadNodeBinary_cache [of sample_env sample_world "''win32''"]
    apply (elim exE conjE)
    subgoal premises p for version w0
    proof -
      from p(1) win(1) have v: "version = ''20.11.0''" by simp
      from win(3) cold(5) have ne: "downloads (snd ?win) \<noteq> downloads sample_world" by simp
      from p(2) [unfolded v win(2) sum.case] ne
      have "extraction_event sample_env ''win32'' ''20.11.0'' \<in> set (trace (snd ?win))
          \<and> \<not> existsSync (archivePath sample_env ''win32'' ''20.11.0'') (snd ?win)"
        by blast
      then show ?thesis by (simp only: win(4) win(5) simp_thms)
    qed
    done
  let ?warm = "downloadNodeBinary sample_env ''darwin'' warm_world"
  have warm: "fst (getRecommendedNodeVersion sample_env warm_world) = Inr ''20.11.0''"
    "existsSync ?target warm_world" "existsSync (cacheDir sample_env) warm_world"
    "existsSync (platformDir sample_env ''darwin'') warm_world"
    by code_simp+
  have hit: "fst ?warm = Inr ?target \<and> downloads (snd ?warm) = downloads warm_world"
    using downloadNodeBinary_cache [of sample_env warm_world "''darwin''"]
    apply (elim exE conjE)
    subgoal premises p for version w0
    proof -
      from p(1) warm(1) have v: "version = ''20.11.0''" by simp
      from p(4) [unfolded v] warm(2) warm(3) warm(4) show ?thesis by blast
    qed
    done

  have d7: "downloads ?w7 =
          [Download ?url ''/home/u/.node-package-builder/cache/darwin/node-20.11.0-darwin.tar.gz'']"
    and a6: "\<not> existsSync ''/home/u/.node-package-builder/cache/darwin/node-20.11.0-darwin.tar.gz'' ?w6"
    using darwin by (simp_all only: paths(2) simp_thms)
  have W1: "\<exists>w0 w1 w2 w3 w4 w5 w6 w7.
      getRecommendedNodeVersion sample_env sample_world = (Inr ''20.11.0'', w0)
      \<and> \<not> existsSync ?target sample_world
      \<and> ?target \<noteq> cacheDir sample_env
      \<and> ?target \<noteq> platformDir sample_env ''darwin''
      \<and> ensure_dir sample_env (cacheDir sample_env) w0 = (Inr (), w1)
      \<and> ensure_dir sample_env (platformDir sample_env ''darwin'') w1 = (Inr (), w2)
      \<and> getNodeDownloadUrl ''20.11.0'' ''darwin'' = Inr ?url
      \<and> downloadFile sample_env ?url ?archive (record_event ?msg w2) = (Inr (), w3)
      \<and> ensure_dir sample_env ?vdir w3 = (Inr (), w4)
      \<and> extractNodeBinary sample_env ?archive ?vdir ''darwin'' ''20.11.0'' w4 = (Inr (), w5)
      \<and> fs sample_env (UnlinkSync ?archive) w5 = (Inr (), w6)
      \<and> existsSync ?target w6
      \<and> fs sample_env (ChmodSync ?target mode_755) w6 = (Inr (), w7)
      \<and> downloadNodeBinary sample_env ''darwin'' sample_world = (Inr ?target, w7)
      \<and> ?target = ''/home/u/.node-package-builder/cache/darwin/20.11.0/node''
      \<and> downloads w7 =
          [Download ?url ''/home/u/.node-package-builder/cache/darwin/node-20.11.0-darwin.tar.gz'']
      \<and> \<not> existsSync ''/home/u/.node-package-builder/cache/darwin/node-20.11.0-darwin.tar.gz'' w6
      \<and> (\<exists>k. disk w7 ?target = Some (k, mode_755))"
    apply (rule exI [of _ ?w0], rule exI [of _ ?w1], rule exI [of _ ?w2], rule exI [of _ ?w3])
    apply (rule exI [of _ ?w4], rule exI [of _ ?w5], rule exI [of _ ?w6], rule exI [of _ ?w7])
    using s cold(1-4) present darwin paths(1) d7 a6 by (intro conjI) blast+
  have W2: "\<exists>w6. downloadNodeBinary empty_archive_env ''darwin'' sample_world =
               (Inl (Error ''Failed to extract Node.js executable for darwin''), w6)
            \<and> \<not> existsSync ''/home/u/.node-package-builder/cache/darwin/node-20.11.0-darwin.tar.gz'' w6
            \<and> downloads w6 =
                [Download ?url ''/home/u/.node-package-builder/cache/darwin/node-20.11.0-darwin.tar.gz'']"
    apply (rule exI [of _ ?x6])
    using empty by (simp only: paths(4) paths(2) simp_thms)
  have W4: "fst ?warm = Inr ''/home/u/.node-package-builder/cache/darwin/20.11.0/node''"
    using hit paths(1) by simp
  show ?thesis
    using W1 W2 win(2) win(3) zip warm(2) warm(3) warm(4) W4 hit
    by (intro conjI) blast+
qed

end
